theory Spec2Isabelle
  imports Main "HOL-Library.Sublist"
begin

section \<open>Strings and numerals\<close>

text \<open>
  JavaScript strings are modelled as \<^typ>\<open>string\<close>; a character outside ASCII stands
  for the bytes of its UTF-8 encoding. No property below depends on the length of a
  string that holds such a character.
\<close>

definition box_dash :: string where
  \<open>box_dash = [CHR 0xE2, CHR 0x94, CHR 0x80]\<close>

definition box_dashes :: \<open>nat \<Rightarrow> string\<close> where
  \<open>box_dashes n = concat (replicate n box_dash)\<close>

definition em_dash :: string where
  \<open>em_dash = [CHR 0xE2, CHR 0x80, CHR 0x94]\<close>

definition digit_char :: \<open>nat \<Rightarrow> char\<close> where
  \<open>digit_char d = ''0123456789'' ! d\<close>

text \<open>The decimal numeral of a natural number, most significant digit first.\<close>

fun decimal :: \<open>nat \<Rightarrow> string\<close> where
  \<open>decimal n = (if n < 10 then [digit_char n]
                else decimal (n div 10) @ [digit_char (n mod 10)])\<close>

declare decimal.simps [simp del]

text \<open>
  \<open>encodeURIComponent\<close>: every byte of the UTF-8 encoding is escaped as \<open>%XX\<close>
  except the unreserved characters \<open>A-Z a-z 0-9 - _ . ! ~ * ' ( )\<close>.
\<close>

definition uri_unreserved :: \<open>char \<Rightarrow> bool\<close> where
  \<open>uri_unreserved c =
     (c \<in> set ''ABCDEFGHIJKLMNOPQRSTUVWXYZabcdefghijklmnopqrstuvwxyz0123456789-_.!~*()''
      \<or> c = CHR 0x27)\<close>

definition hex_digit :: \<open>nat \<Rightarrow> char\<close> where
  \<open>hex_digit d = ''0123456789ABCDEF'' ! d\<close>

definition percent_encode :: \<open>char \<Rightarrow> string\<close> where
  \<open>percent_encode c =
     [CHR ''%'', hex_digit ((of_char c :: nat) div 16), hex_digit ((of_char c :: nat) mod 16)]\<close>

definition encodeURIComponent :: \<open>string \<Rightarrow> string\<close> where
  \<open>encodeURIComponent s =
     concat (map (\<lambda>c. if uri_unreserved c then [c] else percent_encode c) s)\<close>

section \<open>Numbers: \<open>parseFloat\<close> and \<open>toFixed\<close>\<close>

text \<open>
  A Number is NaN, an infinity with its sign, or a finite double \<open>Finite neg m e\<close>:
  the mantissa \<open>m\<close> times \<open>2\<^sup>e\<close>, negated when \<open>neg\<close> holds. The two builtins the region
  section applies to a coordinate follow ECMA-262: \<open>parseFloat\<close> (19.2.4) reads the
  longest prefix that is a decimal literal and rounds its value to the nearest
  double, a tie to the even mantissa; \<open>Number.prototype.toFixed\<close> (21.1.3.3) rounds
  the exact value of the double to the requested number of decimals. Both are
  computed here on integers only.
\<close>

datatype number = NaN | Infinite bool | Finite bool nat int

text \<open>\<open>below x b\<close>: the Number \<open>x\<close> is finite and its magnitude is less than \<open>b\<close>.\<close>

definition below :: \<open>number \<Rightarrow> nat \<Rightarrow> bool\<close> where
  \<open>below x b =
     (case x of
        Finite neg m e \<Rightarrow> (if 0 \<le> e then m * 2 ^ nat e < b else m < b * 2 ^ nat (- e))
      | _ \<Rightarrow> False)\<close>

subsection \<open>Rounding a rational to the nearest double\<close>

fun bit_length :: \<open>nat \<Rightarrow> nat\<close> where
  \<open>bit_length n = (if n = 0 then 0 else bit_length (n div 2) + 1)\<close>

declare bit_length.simps [simp del]

text \<open>
  \<open>floor_log2 p q\<close> is \<open>\<lfloor>log\<^sub>2 (p / q)\<rfloor>\<close> for positive \<open>p\<close> and \<open>q\<close>: the difference
  of the bit lengths, or one less.
\<close>

definition adjust_log2 :: \<open>nat \<Rightarrow> nat \<Rightarrow> nat \<Rightarrow> nat \<Rightarrow> int\<close> where
  \<open>adjust_log2 p q bp bq =
     (if (if bq \<le> bp then q * 2 ^ (bp - bq) \<le> p else q \<le> p * 2 ^ (bq - bp))
      then int bp - int bq else int bp - int bq - 1)\<close>

definition floor_log2 :: \<open>nat \<Rightarrow> nat \<Rightarrow> int\<close> where
  \<open>floor_log2 p q = adjust_log2 p q (bit_length p) (bit_length q)\<close>

text \<open>
  The exponent of the double nearest to \<open>p / q\<close>: 52 below the binary logarithm, so
  that the mantissa has 53 bits, and never below the subnormal exponent -1074.
\<close>

definition double_exponent :: \<open>nat \<Rightarrow> nat \<Rightarrow> int\<close> where
  \<open>double_exponent p q = max (floor_log2 p q - 52) (- 1074)\<close>

text \<open>\<open>n / d\<close> rounded to the nearest natural number, a tie to the even one.\<close>

definition round_half_even :: \<open>nat \<Rightarrow> nat \<Rightarrow> nat\<close> where
  \<open>round_half_even n d =
     (if d < 2 * (n mod d) \<or> (d = 2 * (n mod d) \<and> odd (n div d)) then n div d + 1 else n div d)\<close>

definition mantissa_at :: \<open>nat \<Rightarrow> nat \<Rightarrow> int \<Rightarrow> nat\<close> where
  \<open>mantissa_at p q e =
     (if 0 \<le> e then round_half_even p (q * 2 ^ nat e) else round_half_even (p * 2 ^ nat (- e)) q)\<close>

text \<open>A rounded value of \<open>2\<^sup>1\<^sup>0\<^sup>2\<^sup>4\<close> or more is an infinity.\<close>

definition make_double :: \<open>bool \<Rightarrow> nat \<Rightarrow> int \<Rightarrow> number\<close> where
  \<open>make_double neg m e =
     (if 971 \<le> e \<and> 2 ^ 53 \<le> m * 2 ^ nat (e - 971) then Infinite neg else Finite neg m e)\<close>

definition round_at :: \<open>bool \<Rightarrow> nat \<Rightarrow> nat \<Rightarrow> int \<Rightarrow> number\<close> where
  \<open>round_at neg p q e = make_double neg (mantissa_at p q e) e\<close>

definition nearest_double :: \<open>bool \<Rightarrow> nat \<Rightarrow> nat \<Rightarrow> number\<close> where
  \<open>nearest_double neg p q = round_at neg p q (double_exponent p q)\<close>

subsection \<open>\<open>parseFloat\<close>\<close>

definition is_digit :: \<open>char \<Rightarrow> bool\<close> where
  \<open>is_digit c = (c \<in> set ''0123456789'')\<close>

definition digits_value :: \<open>string \<Rightarrow> nat\<close> where
  \<open>digits_value ds = foldl (\<lambda>acc c. 10 * acc + ((of_char c :: nat) - 48)) 0 ds\<close>

text \<open>
  The white space and line terminators that \<open>parseFloat\<close> skips at the start of
  its argument: TAB, LF, VT, FF, CR, SP, then U+00A0, U+1680, U+2000 to U+200A,
  U+2028, U+2029, U+202F, U+205F, U+3000 and U+FEFF in UTF-8.
\<close>

definition white_space :: \<open>string list\<close> where
  \<open>white_space =
     [[CHR 0x09], [CHR 0x0A], [CHR 0x0B], [CHR 0x0C], [CHR 0x0D], [CHR 0x20],
      [CHR 0xC2, CHR 0xA0], [CHR 0xE1, CHR 0x9A, CHR 0x80],
      [CHR 0xE2, CHR 0x80, CHR 0x80], [CHR 0xE2, CHR 0x80, CHR 0x81],
      [CHR 0xE2, CHR 0x80, CHR 0x82], [CHR 0xE2, CHR 0x80, CHR 0x83],
      [CHR 0xE2, CHR 0x80, CHR 0x84], [CHR 0xE2, CHR 0x80, CHR 0x85],
      [CHR 0xE2, CHR 0x80, CHR 0x86], [CHR 0xE2, CHR 0x80, CHR 0x87],
      [CHR 0xE2, CHR 0x80, CHR 0x88], [CHR 0xE2, CHR 0x80, CHR 0x89],
      [CHR 0xE2, CHR 0x80, CHR 0x8A], [CHR 0xE2, CHR 0x80, CHR 0xA8],
      [CHR 0xE2, CHR 0x80, CHR 0xA9], [CHR 0xE2, CHR 0x80, CHR 0xAF],
      [CHR 0xE2, CHR 0x81, CHR 0x9F], [CHR 0xE3, CHR 0x80, CHR 0x80],
      [CHR 0xEF, CHR 0xBB, CHR 0xBF]]\<close>

definition white_space_length :: \<open>string \<Rightarrow> nat\<close> where
  \<open>white_space_length s =
     (case find (\<lambda>w. prefix w s) white_space of None \<Rightarrow> 0 | Some w \<Rightarrow> length w)\<close>

fun trimStart :: \<open>string \<Rightarrow> string\<close> where
  \<open>trimStart [] = []\<close>
| \<open>trimStart (c # cs) =
     (case white_space_length (c # cs) of 0 \<Rightarrow> c # cs | Suc n \<Rightarrow> trimStart (drop n cs))\<close>

definition has_minus :: \<open>string \<Rightarrow> bool\<close> where
  \<open>has_minus s = (case s of [] \<Rightarrow> False | c # cs \<Rightarrow> c = CHR ''-'')\<close>

definition after_sign :: \<open>string \<Rightarrow> string\<close> where
  \<open>after_sign s =
     (case s of [] \<Rightarrow> [] | c # cs \<Rightarrow> if c = CHR ''-'' \<or> c = CHR ''+'' then cs else s)\<close>

definition signed_digits :: \<open>bool \<Rightarrow> string \<Rightarrow> int\<close> where
  \<open>signed_digits neg ds =
     (if ds = [] then 0 else if neg then - int (digits_value ds) else int (digits_value ds))\<close>

text \<open>
  The exponent part is \<open>e\<close> or \<open>E\<close>, an optional sign and at least one digit; anything
  else ends the literal before it.
\<close>

definition exponent_part :: \<open>string \<Rightarrow> int\<close> where
  \<open>exponent_part s = (case s of [] \<Rightarrow> 0
     | c # cs \<Rightarrow>
         if c = CHR ''e'' \<or> c = CHR ''E''
         then signed_digits (has_minus cs) (takeWhile is_digit (after_sign cs))
         else 0)\<close>

text \<open>
  The Number for the decimal \<open>d \<sqdot> 10\<^sup>e\<close>. (For a literal of more than 20 significant
  digits ECMA-262 lets an implementation round the literal at the 20th digit first;
  the engines round the exact value, as here.)
\<close>

definition to_number :: \<open>bool \<Rightarrow> nat \<Rightarrow> int \<Rightarrow> number\<close> where
  \<open>to_number neg d e =
     (if d = 0 then Finite neg 0 0
      else if 0 \<le> e then nearest_double neg (d * 10 ^ nat e) 1
      else nearest_double neg d (10 ^ nat (- e)))\<close>

text \<open>
  A literal with integer digits \<open>ip\<close>, fraction digits \<open>fp\<close> and the text \<open>r\<close> after
  them; with no digit at all there is no literal and the result is NaN.
\<close>

definition decimal_literal :: \<open>bool \<Rightarrow> string \<Rightarrow> string \<Rightarrow> string \<Rightarrow> number\<close> where
  \<open>decimal_literal neg ip fp r =
     (if ip = [] \<and> fp = [] then NaN
      else to_number neg (digits_value (ip @ fp)) (exponent_part r - int (length fp)))\<close>

definition fraction_part :: \<open>bool \<Rightarrow> string \<Rightarrow> string \<Rightarrow> number\<close> where
  \<open>fraction_part neg ip r =
     (case r of [] \<Rightarrow> decimal_literal neg ip [] []
      | c # cs \<Rightarrow>
          if c = CHR ''.'' then decimal_literal neg ip (takeWhile is_digit cs) (dropWhile is_digit cs)
          else decimal_literal neg ip [] r)\<close>

definition unsigned_literal :: \<open>bool \<Rightarrow> string \<Rightarrow> number\<close> where
  \<open>unsigned_literal neg s =
     (if prefix ''Infinity'' s then Infinite neg
      else fraction_part neg (takeWhile is_digit s) (dropWhile is_digit s))\<close>

definition signed_literal :: \<open>string \<Rightarrow> number\<close> where
  \<open>signed_literal s = unsigned_literal (has_minus s) (after_sign s)\<close>

definition parseFloat :: \<open>string \<Rightarrow> number\<close> where
  \<open>parseFloat string = signed_literal (trimStart string)\<close>

subsection \<open>\<open>Number::toString\<close> of an integral value\<close>

text \<open>
  \<open>Number::toString\<close> (ECMA-262 6.1.6.1.20) prints the shortest digit string \<open>s\<close>
  of \<open>k\<close> digits with \<open>s \<sqdot> 10\<^sup>n\<^sup>-\<^sup>k\<close> rounding to the double, the nearest to it when
  several do: for an integral value followed by \<open>n - k\<close> zeros when \<open>n \<le> 21\<close>, and in
  exponent notation otherwise. It is needed for a double whose value is a natural
  number \<open>x\<close>: \<open>toFixed\<close> hands it a value of \<open>10\<^sup>2\<^sup>1\<close> or more, and a template
  literal an integer count.
\<close>

text \<open>\<open>is_double_of x v\<close>: the natural number \<open>v\<close> rounds to the double of value \<open>x\<close>.\<close>

definition is_double_of :: \<open>nat \<Rightarrow> nat \<Rightarrow> bool\<close> where
  \<open>is_double_of x v =
     (case nearest_double False v 1 of
        Finite _ m e \<Rightarrow> (if 0 \<le> e then m * 2 ^ nat e = x else m = x * 2 ^ nat (- e))
      | _ \<Rightarrow> False)\<close>

fun decimal_length :: \<open>nat \<Rightarrow> nat\<close> where
  \<open>decimal_length n = (if n < 10 then 1 else decimal_length (n div 10) + 1)\<close>

declare decimal_length.simps [simp del]

text \<open>A candidate \<open>(n, s)\<close> of \<open>k\<close> digits denotes \<open>x\<close> when \<open>s \<sqdot> 10\<^sup>n\<^sup>-\<^sup>k\<close> rounds to \<open>x\<close>.\<close>

definition denotes :: \<open>nat \<Rightarrow> nat \<Rightarrow> nat \<times> nat \<Rightarrow> bool\<close> where
  \<open>denotes x k c = is_double_of x (snd c * 10 ^ (fst c - k))\<close>

definition next_candidate :: \<open>nat \<Rightarrow> nat \<Rightarrow> nat \<Rightarrow> nat \<times> nat\<close> where
  \<open>next_candidate k l s = (if s + 1 < 10 ^ k then (l, s + 1) else (l + 1, 10 ^ (k - 1)))\<close>

text \<open>
  With \<open>k\<close> digits only the two \<open>k\<close>-digit decimals around \<open>x\<close> can round to \<open>x\<close>;
  \<open>l\<close> is the number of digits of \<open>x\<close>.
\<close>

definition candidates_at :: \<open>nat \<Rightarrow> nat \<Rightarrow> nat \<Rightarrow> (nat \<times> nat) list\<close> where
  \<open>candidates_at x k l =
     filter (denotes x k) [(l, x div 10 ^ (l - k)), next_candidate k l (x div 10 ^ (l - k))]\<close>

definition candidates :: \<open>nat \<Rightarrow> nat \<Rightarrow> (nat \<times> nat) list\<close> where
  \<open>candidates x k = candidates_at x k (decimal_length x)\<close>

definition distance :: \<open>nat \<Rightarrow> nat \<Rightarrow> nat\<close> where
  \<open>distance a b = (if a \<le> b then b - a else a - b)\<close>

definition nearer :: \<open>nat \<Rightarrow> nat \<Rightarrow> nat \<times> nat \<Rightarrow> nat \<times> nat \<Rightarrow> nat \<times> nat\<close> where
  \<open>nearer x k c c' =
     (if distance x (snd c * 10 ^ (fst c - k)) < distance x (snd c' * 10 ^ (fst c' - k)) \<or>
         (distance x (snd c * 10 ^ (fst c - k)) = distance x (snd c' * 10 ^ (fst c' - k)) \<and>
          even (snd c))
      then c else c')\<close>

definition closest :: \<open>nat \<Rightarrow> nat \<Rightarrow> (nat \<times> nat) list \<Rightarrow> nat \<times> nat\<close> where
  \<open>closest x k cs =
     (case cs of
        [] \<Rightarrow> (decimal_length x, x div 10 ^ (decimal_length x - k))
      | c # cs' \<Rightarrow> (case cs' of [] \<Rightarrow> c | c' # _ \<Rightarrow> nearer x k c c'))\<close>

text \<open>The least number of digits, from \<open>k\<close> on, that denotes \<open>x\<close>; 17 always do.\<close>

function shortest_length :: \<open>nat \<Rightarrow> nat \<Rightarrow> nat\<close> where
  \<open>shortest_length x k =
     (if 17 \<le> k \<or> candidates x k \<noteq> [] then k else shortest_length x (k + 1))\<close>
  by pat_completeness auto

termination
  by (relation \<open>measure (\<lambda>(x, k). 17 - k)\<close>) auto

declare shortest_length.simps [simp del]

definition exponent_form :: \<open>nat \<Rightarrow> nat \<times> nat \<Rightarrow> string\<close> where
  \<open>exponent_form k c =
     (if k = 1 then decimal (snd c) @ ''e'' @ ''+'' @ decimal (fst c - 1)
      else [hd (decimal (snd c))] @ ''.'' @ tl (decimal (snd c)) @ ''e'' @ ''+'' @
           decimal (fst c - 1))\<close>

definition shortest_form :: \<open>nat \<Rightarrow> nat \<Rightarrow> string\<close> where
  \<open>shortest_form x k = exponent_form k (closest x k (candidates x k))\<close>

definition toString_large :: \<open>nat \<Rightarrow> string\<close> where
  \<open>toString_large x = shortest_form x (shortest_length x 1)\<close>

text \<open>
  The same for any integral value: the digits and \<open>n - k\<close> zeros up to 21 digits,
  the exponent notation beyond.
\<close>

definition integer_form :: \<open>nat \<Rightarrow> nat \<times> nat \<Rightarrow> string\<close> where
  \<open>integer_form k c =
     (if fst c \<le> 21 then decimal (snd c) @ replicate (fst c - k) CHR ''0''
      else exponent_form k c)\<close>

definition integer_digits :: \<open>nat \<Rightarrow> nat \<Rightarrow> string\<close> where
  \<open>integer_digits x k = integer_form k (closest x k (candidates x k))\<close>

definition toString_nat :: \<open>nat \<Rightarrow> string\<close> where
  \<open>toString_nat x = (if x = 0 then ''0'' else integer_digits x (shortest_length x 1))\<close>

text \<open>
  An integer of the JSON or of the mock data is held as the double nearest to it:
  \<open>double_of_nat n\<close> is the value of that double, \<open>None\<close> when it is an infinity.
\<close>

definition integral_value :: \<open>number \<Rightarrow> nat option\<close> where
  \<open>integral_value x =
     (case x of
        Finite _ m e \<Rightarrow> Some (if 0 \<le> e then m * 2 ^ nat e else m div 2 ^ nat (- e))
      | _ \<Rightarrow> None)\<close>

definition double_of_nat :: \<open>nat \<Rightarrow> nat option\<close> where
  \<open>double_of_nat n = integral_value (nearest_double False n 1)\<close>

definition toString_double :: \<open>nat option \<Rightarrow> string\<close> where
  \<open>toString_double v = (case v of None \<Rightarrow> ''Infinity'' | Some x \<Rightarrow> toString_nat x)\<close>

text \<open>
  \<open>`${n}`\<close> for an integer count \<open>n\<close>: \<open>Number::toString\<close> of the double that holds
  it, after a minus sign when it is negative.
\<close>

definition int_to_string :: \<open>int \<Rightarrow> string\<close> where
  \<open>int_to_string i =
     (if i < 0 then ''-'' else []) @ toString_double (double_of_nat (nat \<bar>i\<bar>))\<close>

subsection \<open>\<open>toFixed\<close>\<close>

text \<open>
  The integer \<open>n\<close> with \<open>n / 10\<^sup>f\<close> nearest to \<open>m \<sqdot> 2\<^sup>e\<close>, the larger one on a tie:
  \<open>\<lfloor>m \<sqdot> 2\<^sup>e \<sqdot> 10\<^sup>f + 1/2\<rfloor>\<close>.
\<close>

definition scaled_round :: \<open>nat \<Rightarrow> int \<Rightarrow> nat \<Rightarrow> nat\<close> where
  \<open>scaled_round m e f =
     (if 0 \<le> e then m * 2 ^ nat e * 10 ^ f
      else (2 * m * 10 ^ f + 2 ^ nat (- e)) div 2 ^ (nat (- e) + 1))\<close>

definition pad_zeros :: \<open>nat \<Rightarrow> string \<Rightarrow> string\<close> where
  \<open>pad_zeros f m = (if length m \<le> f then replicate (f + 1 - length m) CHR ''0'' @ m else m)\<close>

definition insert_point :: \<open>nat \<Rightarrow> string \<Rightarrow> string\<close> where
  \<open>insert_point f m = take (length m - f) m @ ''.'' @ drop (length m - f) m\<close>

definition fixed_digits :: \<open>nat \<Rightarrow> nat \<Rightarrow> string\<close> where
  \<open>fixed_digits n f = (if f \<noteq> 0 then insert_point f (pad_zeros f (decimal n)) else decimal n)\<close>

text \<open>
  \<open>x.toFixed(f)\<close>. The sign is printed for a value below zero (not for -0); a double
  with a negative exponent is below \<open>2\<^sup>5\<^sup>3\<close>, so only a non-negative exponent reaches
  \<open>10\<^sup>2\<^sup>1\<close>.
\<close>

definition toFixed :: \<open>number \<Rightarrow> nat \<Rightarrow> string\<close> where
  \<open>toFixed x f =
     (case x of
        NaN \<Rightarrow> ''NaN''
      | Infinite neg \<Rightarrow> (if neg then ''-Infinity'' else ''Infinity'')
      | Finite neg m e \<Rightarrow>
          (if neg \<and> m \<noteq> 0 then ''-'' else []) @
          (if 0 \<le> e \<and> 10 ^ 21 \<le> m * 2 ^ nat e then toString_large (m * 2 ^ nat e)
           else fixed_digits (scaled_round m e f) f))\<close>

text \<open>
  A string in fixed-point notation with exactly \<open>f\<close> digits after the decimal point:
  an optional minus sign, at least one digit, the point, \<open>f\<close> digits and nothing else.
\<close>

definition after_minus :: \<open>string \<Rightarrow> string\<close> where
  \<open>after_minus s = (case s of [] \<Rightarrow> [] | c # cs \<Rightarrow> if c = CHR ''-'' then cs else s)\<close>

definition fixed_format :: \<open>nat \<Rightarrow> string \<Rightarrow> bool\<close> where
  \<open>fixed_format f s =
     (takeWhile is_digit (after_minus s) \<noteq> [] \<and>
      (case dropWhile is_digit (after_minus s) of
         [] \<Rightarrow> False
       | c # fp \<Rightarrow> c = CHR ''.'' \<and> length fp = f \<and> list_all is_digit fp))\<close>

section \<open>Data model\<close>

text \<open>
  The records fetched from the API or taken from the mock data. A field that may be
  absent (\<open>undefined\<close> or \<open>null\<close>) is an option. Coordinates arrive as decimal
  strings (the code parses them with \<open>parseFloat\<close>); counts are integers. The name
  and the slug of an attraction carry the prefix \<open>attraction_\<close>, and the image of a
  region is \<open>image_ref\<close>, to keep them apart from the fields of the same name.
\<close>

record region =
  slug :: string
  name :: string
  description :: string
  image_ref :: \<open>string option\<close>
  latitude :: string
  longitude :: string
  attraction_count :: int

record attraction =
  attraction_slug :: string
  attraction_name :: string
  region_name :: string
  featured_image :: \<open>string option\<close>
  difficulty_level :: string
  is_featured :: bool

record contributor =
  login :: string
  avatar_url :: string
  html_url :: string
  contributions :: int

text \<open>
  \<open>a || b\<close> on an optional string: the left operand when it is truthy (present and
  not the empty string), the right operand otherwise.
\<close>

definition or_else :: \<open>string option \<Rightarrow> string \<Rightarrow> string\<close> where
  \<open>or_else a b = (case a of None \<Rightarrow> b | Some s \<Rightarrow> if s = [] then b else s)\<close>

section \<open>regions.js: content renderer\<close>

text \<open>\<^verbatim>\<open>function difficultyBadge(level)\<close>\<close>

definition difficultyBadge :: \<open>string \<Rightarrow> string\<close> where
  \<open>difficultyBadge level =
     ''<span class="badge-'' @ level @
     '' text-xs font-semibold px-2 py-0.5 rounded-full capitalize">'' @ level @ ''</span>''\<close>

text \<open>
  \<^verbatim>\<open>attractions.filter(a => a.region_name === regionName).slice(0, 3)\<close>
\<close>

definition getAttractionsByRegion :: \<open>attraction list \<Rightarrow> string \<Rightarrow> attraction list\<close> where
  \<open>getAttractionsByRegion attractions regionName =
     take 3 (filter (\<lambda>a. region_name a = regionName) attractions)\<close>

text \<open>
  \<^verbatim>\<open>function buildAttractionCard(attraction)\<close>, with its two local constants.
\<close>

definition buildAttractionCard_fallbackImg :: string where
  \<open>buildAttractionCard_fallbackImg = ''images/photo-1547036967-23d11aacaee0.jpg''\<close>

definition attraction_imgSrc :: \<open>attraction \<Rightarrow> string\<close> where
  \<open>attraction_imgSrc attraction =
     or_else (featured_image attraction) buildAttractionCard_fallbackImg\<close>

definition buildAttractionCard :: \<open>attraction \<Rightarrow> string\<close> where
  \<open>buildAttractionCard attraction =
     ''\<newline>'' @
     ''    <article class="group rounded-xl overflow-hidden bg-white shadow-sm hover:shadow-md transition-shadow">\<newline>'' @
     ''\<newline>'' @
     ''      <!-- Attraction thumbnail -->\<newline>'' @
     ''      <div class="relative aspect-video overflow-hidden">\<newline>'' @
     ''        <img src="'' @ attraction_imgSrc attraction @ ''"\<newline>'' @
     ''             alt="'' @ attraction_name attraction @ ''"\<newline>'' @
     ''             class="w-full h-full object-cover group-hover:scale-105 transition-transform duration-500"\<newline>'' @
     ''             loading="lazy" />\<newline>'' @
     ''        <!-- Difficulty badge overlays the image bottom-left -->\<newline>'' @
     ''        <div class="absolute bottom-2 left-2">\<newline>'' @
     ''          '' @ difficultyBadge (difficulty_level attraction) @ ''\<newline>'' @
     ''        </div>\<newline>'' @
     ''      </div>\<newline>'' @
     ''\<newline>'' @
     ''      <!-- Card body: name + link -->\<newline>'' @
     ''      <div class="p-4 flex items-center justify-between gap-2">\<newline>'' @
     ''        <h4 class="font-display text-sm font-bold text-tz-dark leading-snug">\<newline>'' @
     ''          '' @ attraction_name attraction @ ''\<newline>'' @
     ''        </h4>\<newline>'' @
     ''        <a href="attraction.html?slug='' @ attraction_slug attraction @
     ''"\<newline>'' @
     ''           class="shrink-0 text-tz-forest hover:text-tz-forest/70 transition-colors"\<newline>'' @
     ''           aria-label="View details for '' @ attraction_name attraction @
     ''">\<newline>'' @
     ''          <i data-lucide="arrow-right" class="w-4 h-4"></i>\<newline>'' @
     ''        </a>\<newline>'' @
     ''      </div>\<newline>'' @
     ''\<newline>'' @
     ''    </article>\<newline>'' @
     ''  ''\<close>

text \<open>
  \<^verbatim>\<open>function buildRegionSection(region, attractions, index)\<close>. Its local constants
  \<open>fallbackImg\<close>, \<open>imgSrc\<close>, \<open>imageLeft\<close>, \<open>lat\<close>, \<open>lng\<close> and \<open>attractionCards\<close> come
  first, then the template literal: the list of its literal pieces and substituted
  values in order, one line of the source per line, and their concatenation.
\<close>

definition buildRegionSection_fallbackImg :: string where
  \<open>buildRegionSection_fallbackImg = ''images/photo-1547036967-23d11aacaee0.jpg''\<close>

definition region_imgSrc :: \<open>region \<Rightarrow> string\<close> where
  \<open>region_imgSrc region = or_else (image_ref region) buildRegionSection_fallbackImg\<close>

definition imageLeft :: \<open>nat \<Rightarrow> bool\<close> where
  \<open>imageLeft index = (index mod 2 = 0)\<close>

definition lat :: \<open>region \<Rightarrow> string\<close> where
  \<open>lat region = toFixed (parseFloat (latitude region)) 4\<close>

definition lng :: \<open>region \<Rightarrow> string\<close> where
  \<open>lng region = toFixed (parseFloat (longitude region)) 4\<close>

definition attractionCards :: \<open>attraction list \<Rightarrow> string\<close> where
  \<open>attractionCards attractions =
     (if length attractions > 0 then concat (map buildAttractionCard attractions)
      else ''<p class="col-span-full text-tz-muted text-sm italic">No attractions listed yet.</p>'')\<close>

definition region_section_parts :: \<open>region \<Rightarrow> attraction list \<Rightarrow> nat \<Rightarrow> string list\<close> where
  \<open>region_section_parts region attractions index =
    [''\<newline>'',
     ''    <!-- '', box_dashes 2, '' Region: '', name region, '' '',
     box_dashes 32, '' -->\<newline>'',
     ''    <section id="region-'', slug region, ''"\<newline>'',
     ''             class="scroll-mt-20"\<newline>'',
     ''             data-aos="fade-up"\<newline>'',
     ''             aria-labelledby="region-title-'', slug region, ''">\<newline>'',
     ''\<newline>'',
     ''      <!-- Top row: hero image + description panel -->\<newline>'',
     ''      <div class="flex flex-col '', (if imageLeft index then ''lg:flex-row'' else ''lg:flex-row-reverse''),
     '' gap-8 lg:gap-12 items-stretch mb-10">\<newline>'',
     ''\<newline>'',
     ''        <!-- Region hero image '', em_dash, '' 1/3 width on desktop -->\<newline>'',
     ''        <div class="lg:w-1/3 shrink-0 rounded-2xl overflow-hidden shadow-md">\<newline>'',
     ''          <img src="'', region_imgSrc region, ''"\<newline>'',
     ''               alt="Landscape of '', name region, '' region"\<newline>'',
     ''               class="w-full h-full object-cover min-h-64 lg:min-h-0"\<newline>'',
     ''               loading="lazy" />\<newline>'',
     ''        </div>\<newline>'',
     ''\<newline>'',
     ''        <!-- Description panel '', em_dash, '' 2/3 width on desktop -->\<newline>'',
     ''        <div class="flex flex-col justify-center flex-1">\<newline>'',
     ''\<newline>'',
     ''          <!-- Region name -->\<newline>'',
     ''          <h2 id="region-title-'', slug region, ''"\<newline>'',
     ''              class="font-display text-4xl sm:text-5xl font-bold text-tz-dark mb-4 leading-tight">\<newline>'',
     ''            '', name region, ''\<newline>'',
     ''          </h2>\<newline>'',
     ''\<newline>'',
     ''          <!-- Description paragraph -->\<newline>'',
     ''          <p class="text-tz-muted text-base sm:text-lg leading-relaxed mb-6">\<newline>'',
     ''            '', description region, ''\<newline>'',
     ''          </p>\<newline>'',
     ''\<newline>'',
     ''          <!-- Meta row: attraction count + GPS coordinates -->\<newline>'',
     ''          <div class="flex flex-wrap items-center gap-4 mb-8">\<newline>'',
     ''\<newline>'',
     ''            <!-- Attraction count badge -->\<newline>'',
     ''            <span class="inline-flex items-center gap-1.5 bg-tz-forest/10 text-tz-forest\<newline>'',
     ''                         text-sm font-semibold px-3 py-1.5 rounded-full">\<newline>'',
     ''              <i data-lucide="map-pin" class="w-4 h-4" aria-hidden="true"></i>\<newline>'',
     ''              '', int_to_string (attraction_count region), '' Attraction'',
     (if attraction_count region \<noteq> 1 then ''s'' else []), ''\<newline>'',
     ''            </span>\<newline>'',
     ''\<newline>'',
     ''            <!-- GPS coordinates -->\<newline>'',
     ''            <span class="inline-flex items-center gap-1.5 bg-tz-sand text-tz-earth\<newline>'',
     ''                         text-sm font-mono px-3 py-1.5 rounded-full"\<newline>'',
     ''                  title="GPS coordinates for '', name region, ''">\<newline>'',
     ''              <i data-lucide="navigation" class="w-4 h-4" aria-hidden="true"></i>\<newline>'',
     ''              '', lat region, '', '', lng region, ''\<newline>'',
     ''            </span>\<newline>'',
     ''\<newline>'',
     ''          </div>\<newline>'',
     ''\<newline>'',
     ''          <!-- "View Attractions" CTA '', em_dash, '' links to attractions.html pre-filtered -->\<newline>'',
     ''          <div>\<newline>'',
     ''            <a href="attractions.html?region='', encodeURIComponent (name region),
     ''"\<newline>'',
     ''               class="inline-flex items-center gap-2 bg-tz-forest text-white font-semibold\<newline>'',
     ''                      px-6 py-3 rounded-full hover:bg-tz-forest/90 transition-colors shadow-sm">\<newline>'',
     ''              View Attractions\<newline>'',
     ''              <i data-lucide="arrow-right" class="w-4 h-4" aria-hidden="true"></i>\<newline>'',
     ''            </a>\<newline>'',
     ''          </div>\<newline>'',
     ''\<newline>'',
     ''        </div>\<newline>'',
     ''      </div>\<newline>'',
     ''\<newline>'',
     ''      <!-- Attractions preview grid: up to 3 cards -->\<newline>'',
     ''      <div>\<newline>'',
     ''        <h3 class="font-display text-xl font-semibold text-tz-dark mb-5 flex items-center gap-2">\<newline>'',
     ''          <i data-lucide="layout-grid" class="w-5 h-5 text-tz-savanna" aria-hidden="true"></i>\<newline>'',
     ''          Top Attractions in '', name region, ''\<newline>'',
     ''        </h3>\<newline>'',
     ''        <div class="grid grid-cols-1 sm:grid-cols-2 lg:grid-cols-3 gap-5"\<newline>'',
     ''             aria-label="Attractions preview for '', name region, ''">\<newline>'',
     ''          '', attractionCards attractions, ''\<newline>'',
     ''        </div>\<newline>'',
     ''      </div>\<newline>'',
     ''\<newline>'',
     ''      <!-- Subtle divider (hidden on last item via CSS sibling, handled by spacing) -->\<newline>'',
     ''      <div class="mt-16 border-b border-gray-100" aria-hidden="true"></div>\<newline>'',
     ''\<newline>'',
     ''    </section>\<newline>'',
     ''  '']\<close>

definition buildRegionSection :: \<open>region \<Rightarrow> attraction list \<Rightarrow> nat \<Rightarrow> string\<close> where
  \<open>buildRegionSection region attractions index =
     concat (region_section_parts region attractions index)\<close>

text \<open>
  Excerpts of the two templates, to say where a value is rendered: the top row from
  its opening tag to the opening tag of the description panel (lines 131 to 142
  of regions.js) with its direction class, the hero image tag up to its \<open>alt\<close>
  attribute (lines 135 and 136) with its source, the inside of the attraction-count
  badge (lines 161 to 163) and of the coordinate badge (lines 169 to 171) with their
  text, and the image tag of an attraction card (lines 63 and 64) with its source.
\<close>

definition top_row :: \<open>string \<Rightarrow> region \<Rightarrow> string\<close> where
  \<open>top_row direction region =
     ''      <div class="flex flex-col '' @ direction @
     '' gap-8 lg:gap-12 items-stretch mb-10">\<newline>'' @
     ''\<newline>'' @
     ''        <!-- Region hero image '' @ em_dash @ '' 1/3 width on desktop -->\<newline>'' @
     ''        <div class="lg:w-1/3 shrink-0 rounded-2xl overflow-hidden shadow-md">\<newline>'' @
     ''          <img src="'' @ region_imgSrc region @ ''"\<newline>'' @
     ''               alt="Landscape of '' @ name region @ '' region"\<newline>'' @
     ''               class="w-full h-full object-cover min-h-64 lg:min-h-0"\<newline>'' @
     ''               loading="lazy" />\<newline>'' @
     ''        </div>\<newline>'' @
     ''\<newline>'' @
     ''        <!-- Description panel '' @ em_dash @ '' 2/3 width on desktop -->\<newline>'' @
     ''        <div class="flex flex-col justify-center flex-1">\<newline>''\<close>

definition hero_image :: \<open>string \<Rightarrow> region \<Rightarrow> string\<close> where
  \<open>hero_image src region =
     ''          <img src="'' @ src @ ''"\<newline>'' @
     ''               alt="Landscape of '' @ name region @ '' region"\<newline>''\<close>

definition count_badge :: \<open>string \<Rightarrow> string\<close> where
  \<open>count_badge label =
     ''              <i data-lucide="map-pin" class="w-4 h-4" aria-hidden="true"></i>\<newline>'' @
     ''              '' @ label @ ''\<newline>'' @
     ''            </span>\<newline>''\<close>

definition coordinate_badge :: \<open>string \<Rightarrow> string\<close> where
  \<open>coordinate_badge label =
     ''              <i data-lucide="navigation" class="w-4 h-4" aria-hidden="true"></i>\<newline>'' @
     ''              '' @ label @ ''\<newline>'' @
     ''            </span>\<newline>''\<close>

definition card_image :: \<open>string \<Rightarrow> attraction \<Rightarrow> string\<close> where
  \<open>card_image src attraction =
     ''        <img src="'' @ src @ ''"\<newline>'' @
     ''             alt="'' @ attraction_name attraction @ ''"\<newline>''\<close>

section \<open>Errors, responses and observable effects\<close>

datatype js_error = Error string | TypeError string | SyntaxError string | AbortError string

fun message :: \<open>js_error \<Rightarrow> string\<close> where
  \<open>message (Error m) = m\<close>
| \<open>message (TypeError m) = m\<close>
| \<open>message (SyntaxError m) = m\<close>
| \<open>message (AbortError m) = m\<close>

text \<open>
  A response carries its status and what the promise \<open>res.json()\<close> settles to: the
  parsed body, or the error of reading or parsing it. \<open>res.ok\<close> is a status from
  200 to 299.
\<close>

record 'v response =
  status :: nat
  json :: \<open>js_error + 'v\<close>

definition ok :: \<open>'v response \<Rightarrow> bool\<close> where
  \<open>ok res = (200 \<le> status res \<and> status res \<le> 299)\<close>

text \<open>
  What the promise of \<open>fetch\<close> settles to: rejected (no connection, or aborted by
  the signal of the 8 second timer), or resolved with a response.
\<close>

datatype 'v fetch_outcome = Rejected js_error | Resolved \<open>'v response\<close>

text \<open>
  The failures of the network attempt: a rejected fetch or a status outside 200 to 299.
\<close>

definition network_failed :: \<open>'v fetch_outcome \<Rightarrow> bool\<close> where
  \<open>network_failed result =
     (case result of Rejected err \<Rightarrow> True | Resolved res \<Rightarrow> \<not> ok res)\<close>

text \<open>
  The effects a caller or a test can observe: a request, a console warning with its
  two arguments, a call of the fallback producer; and, for a page, a console error,
  an assignment to \<open>innerHTML\<close> of the element with an id, the two calls that re-arm
  the icons and the scroll animations, and a scroll scheduled after a delay.
\<close>

datatype io_event =
  Fetch string
| ConsoleWarn string string
| MockFallback

datatype page_event =
  IO io_event
| ConsoleError string js_error
| SetInnerHTML string string
| CreateIcons
| AOSRefresh
| ScrollIntoViewAfter nat string

fun inner_html_writes :: \<open>page_event list \<Rightarrow> (string \<times> string) list\<close> where
  \<open>inner_html_writes [] = []\<close>
| \<open>inner_html_writes (SetInnerHTML element html # events) = (element, html) # inner_html_writes events\<close>
| \<open>inner_html_writes (_ # events) = inner_html_writes events\<close>

section \<open>api.js: the data source adapter\<close>

text \<open>
  The promise an \<open>async\<close> call returns, as the caller sees it: the effects of the
  synchronous start of the call, the effects at the moment the promise settles, and
  the outcome, \<open>Inl\<close> a rejection and \<open>Inr\<close> the value.
\<close>

record 'v settled =
  on_call :: \<open>io_event list\<close>
  on_settle :: \<open>io_event list\<close>
  outcome :: \<open>js_error + 'v\<close>

definition API_BASE :: string where
  \<open>API_BASE = ''https://cf89615f228bb45cc805447510de80.pythonanywhere.com''\<close>

text \<open>
  The \<open>catch\<close> block of \<open>apiFetch\<close>: one warning, then the fallback producer, whose
  exception is not caught.
\<close>

definition fall_back :: \<open>string \<Rightarrow> js_error \<Rightarrow> (unit \<Rightarrow> js_error + 'v) \<Rightarrow> 'v settled\<close> where
  \<open>fall_back path err mockFallback =
     \<lparr>on_call = [Fetch (API_BASE @ path)],
      on_settle = [ConsoleWarn (''[api] Falling back to mock data for '' @ path @ '':'') (message err),
                   MockFallback],
      outcome = mockFallback ()\<rparr>\<close>

text \<open>
  \<^verbatim>\<open>async function apiFetch(path, mockFallback)\<close>, with the module constant
  \<open>USE_MOCK\<close> and the network as parameters. The \<open>try\<close> block awaits \<open>fetch\<close> only:
  \<^verbatim>\<open>return res.json()\<close> hands the promise of the body to the caller without
  awaiting it, so the block is left before that promise settles and its rejection
  does not reach the \<open>catch\<close> block. (A status is an unsigned 16-bit number, so its
  text in a template literal is its decimal numeral.)
\<close>

definition apiFetch ::
  \<open>bool \<Rightarrow> (string \<Rightarrow> 'v fetch_outcome) \<Rightarrow> string \<Rightarrow> (unit \<Rightarrow> js_error + 'v) \<Rightarrow> 'v settled\<close> where
  \<open>apiFetch use_mock fetch path mockFallback =
     (if use_mock then \<lparr>on_call = [MockFallback], on_settle = [], outcome = mockFallback ()\<rparr>
      else
        case fetch (API_BASE @ path) of
          Rejected err \<Rightarrow> fall_back path err mockFallback
        | Resolved res \<Rightarrow>
            if \<not> ok res
            then fall_back path (Error (''API error: '' @ decimal (status res))) mockFallback
            else \<lparr>on_call = [Fetch (API_BASE @ path)], on_settle = [], outcome = json res\<rparr>)\<close>

text \<open>
  The mock data set and the network, which the module imports and calls. Of
  \<open>MOCK_DATA\<close> the endpoints below read the two lists and the details by slug, where
  \<open>None\<close> is a slug without an entry. (The parameter \<open>slug\<close> of the source is
  \<open>key\<close> here.)
\<close>

record 'd mock_data =
  mock_regions :: \<open>region list\<close>
  mock_attractions :: \<open>attraction list\<close>
  mock_attractionDetails :: \<open>string \<Rightarrow> 'd option\<close>

record 'd env =
  USE_MOCK :: bool
  MOCK_DATA :: \<open>'d mock_data\<close>
  fetch_regions :: \<open>string \<Rightarrow> region list fetch_outcome\<close>
  fetch_attractions :: \<open>string \<Rightarrow> attraction list fetch_outcome\<close>
  fetch_attraction :: \<open>string \<Rightarrow> 'd fetch_outcome\<close>

definition api_getRegions :: \<open>'d env \<Rightarrow> region list settled\<close> where
  \<open>api_getRegions env =
     apiFetch (USE_MOCK env) (fetch_regions env) ''/regions/''
       (\<lambda>_. Inr (mock_regions (MOCK_DATA env)))\<close>

definition api_getAttractions :: \<open>'d env \<Rightarrow> attraction list settled\<close> where
  \<open>api_getAttractions env =
     apiFetch (USE_MOCK env) (fetch_attractions env) ''/attractions/''
       (\<lambda>_. Inr (mock_attractions (MOCK_DATA env)))\<close>

definition api_getFeaturedAttractions :: \<open>'d env \<Rightarrow> attraction list settled\<close> where
  \<open>api_getFeaturedAttractions env =
     apiFetch (USE_MOCK env) (fetch_attractions env) ''/attractions/featured/''
       (\<lambda>_. Inr (filter is_featured (mock_attractions (MOCK_DATA env))))\<close>

definition attraction_fallback :: \<open>'d env \<Rightarrow> string \<Rightarrow> unit \<Rightarrow> js_error + 'd\<close> where
  \<open>attraction_fallback env key _ =
     (case mock_attractionDetails (MOCK_DATA env) key of
        None \<Rightarrow> Inl (Error (''Attraction "'' @ key @ ''" not found in mock data''))
      | Some detail \<Rightarrow> Inr detail)\<close>

definition api_getAttraction :: \<open>'d env \<Rightarrow> string \<Rightarrow> 'd settled\<close> where
  \<open>api_getAttraction env key =
     apiFetch (USE_MOCK env) (fetch_attraction env) (''/attractions/'' @ key @ ''/'')
       (attraction_fallback env key)\<close>

section \<open>regions.js: the page controller\<close>

text \<open>
  The page as the controllers see it: which ids \<open>document.getElementById\<close> finds
  when the script starts and after the sections are written, whether the globals
  \<open>lucide\<close> and \<open>AOS\<close> are defined, and the \<open>highlight\<close> query parameter.
\<close>

record page =
  has_element :: \<open>string \<Rightarrow> bool\<close>
  has_element_after_render :: \<open>string \<Rightarrow> bool\<close>
  lucide_defined :: bool
  AOS_defined :: bool
  highlight :: \<open>string option\<close>

definition failure_html :: string where
  \<open>failure_html =
     ''\<newline>'' @
     ''      <p class="text-center text-red-500 py-16">\<newline>'' @
     ''        Failed to load regions. Please try refreshing the page.\<newline>'' @
     ''      </p>\<newline>'' @
     ''    ''\<close>

text \<open>
  \<^verbatim>\<open>regions.map((region, index) => ...).join('')\<close>
\<close>

definition regions_html :: \<open>region list \<Rightarrow> attraction list \<Rightarrow> string\<close> where
  \<open>regions_html regions attractions =
     concat (map (\<lambda>(index, region).
                    buildRegionSection region (getAttractionsByRegion attractions (name region)) index)
               (enumerate 0 regions))\<close>

definition scroll_to_highlight :: \<open>page \<Rightarrow> page_event list\<close> where
  \<open>scroll_to_highlight page =
     (case highlight page of
        None \<Rightarrow> []
      | Some h \<Rightarrow>
          if h \<noteq> [] \<and> has_element_after_render page (''region-'' @ h)
          then [ScrollIntoViewAfter 150 (''region-'' @ h)] else [])\<close>

text \<open>The rest of the \<open>try\<close> block once both lists have arrived.\<close>

definition init_rendered :: \<open>page \<Rightarrow> region list \<Rightarrow> attraction list \<Rightarrow> page_event list\<close> where
  \<open>init_rendered page regions attractions =
     [SetInnerHTML ''regions-container'' (regions_html regions attractions)] @
     (if lucide_defined page then [CreateIcons] else []) @
     (if AOS_defined page then [AOSRefresh] else []) @
     scroll_to_highlight page\<close>

text \<open>The \<open>catch\<close> block.\<close>

definition init_failed :: \<open>js_error \<Rightarrow> page_event list\<close> where
  \<open>init_failed err =
     [ConsoleError ''[regions] Failed to load regions:'' err,
      SetInnerHTML ''regions-container'' failure_html]\<close>

text \<open>
  \<^verbatim>\<open>async function init()\<close> over the two promises it awaits. Both calls start
  before either settles. \<open>Promise.all\<close> rejects with the first rejection and resolves
  when the second promise has resolved. The order in which the two promises settle
  is a parameter, and so is whether the second one settles before \<open>init\<close> resumes
  (the two settle in the same turn of the event loop) or after: after a rejection
  of the first, the \<open>catch\<close> block then runs before the effects of the second.
\<close>

datatype settle_order =
  RegionsFirst
| AttractionsFirst
| SameTurnRegionsFirst
| SameTurnAttractionsFirst

text \<open>What \<open>init\<close> does once \<open>Promise.all\<close> has resolved or one promise was rejected.\<close>

definition init_resumed ::
  \<open>page \<Rightarrow> js_error + region list \<Rightarrow> js_error + attraction list \<Rightarrow> bool \<Rightarrow> page_event list\<close> where
  \<open>init_resumed page regions_outcome attractions_outcome regions_first =
     (case regions_outcome of
        Inl err \<Rightarrow>
          (case attractions_outcome of
             Inl err' \<Rightarrow> init_failed (if regions_first then err else err')
           | Inr attractions \<Rightarrow> init_failed err)
      | Inr regions \<Rightarrow>
          (case attractions_outcome of
             Inl err' \<Rightarrow> init_failed err'
           | Inr attractions \<Rightarrow> init_rendered page regions attractions))\<close>

definition init_with ::
  \<open>page \<Rightarrow> settle_order \<Rightarrow> region list settled \<Rightarrow> attraction list settled \<Rightarrow> page_event list\<close> where
  \<open>init_with page order rs ats =
     (if \<not> has_element page ''regions-container'' then []
      else
        map IO (on_call rs) @ map IO (on_call ats) @
        (case order of
           RegionsFirst \<Rightarrow>
             map IO (on_settle rs) @
             (case outcome rs of
                Inl err \<Rightarrow> init_failed err @ map IO (on_settle ats)
              | Inr regions \<Rightarrow>
                  map IO (on_settle ats) @ init_resumed page (outcome rs) (outcome ats) True)
         | AttractionsFirst \<Rightarrow>
             map IO (on_settle ats) @
             (case outcome ats of
                Inl err \<Rightarrow> init_failed err @ map IO (on_settle rs)
              | Inr attractions \<Rightarrow>
                  map IO (on_settle rs) @ init_resumed page (outcome rs) (outcome ats) False)
         | SameTurnRegionsFirst \<Rightarrow>
             map IO (on_settle rs) @ map IO (on_settle ats) @
             init_resumed page (outcome rs) (outcome ats) True
         | SameTurnAttractionsFirst \<Rightarrow>
             map IO (on_settle ats) @ map IO (on_settle rs) @
             init_resumed page (outcome rs) (outcome ats) False))\<close>

definition init :: \<open>'d env \<Rightarrow> page \<Rightarrow> settle_order \<Rightarrow> page_event list\<close> where
  \<open>init env page order = init_with page order (api_getRegions env) (api_getAttractions env)\<close>

section \<open>about.js: the contributor loader\<close>

definition GITHUB_REPO :: string where
  \<open>GITHUB_REPO = ''cleven12/twenzetu-safari-web''\<close>

definition contributors_url :: string where
  \<open>contributors_url =
     ''https://api.github.com/repos/'' @ GITHUB_REPO @ ''/contributors?per_page=20''\<close>

definition empty_html :: string where
  \<open>empty_html =
     ''<p class="col-span-full text-tz-muted text-center text-sm">No contributors found yet. '' @
     ''Be the first'' @ ''!</p>''\<close>

definition contributor_card :: \<open>contributor \<Rightarrow> string\<close> where
  \<open>contributor_card c =
     ''\<newline>'' @
     ''      <a href="'' @ html_url c @ ''" target="_blank" rel="noopener noreferrer"\<newline>'' @
     ''         class="contributor-card bg-white rounded-xl p-5 shadow-sm border border-gray-100\<newline>'' @
     ''                flex flex-col items-center text-center"\<newline>'' @
     ''         data-aos="fade-up">\<newline>'' @
     ''        <img src="'' @ avatar_url c @ ''&s=80" alt="'' @ login c @ ''" class="w-14 h-14 rounded-full mb-3 shadow-sm" loading="lazy" />\<newline>'' @
     ''        <span class="font-semibold text-tz-dark text-sm">'' @ login c @
     ''</span>\<newline>'' @
     ''        <span class="text-xs text-tz-muted mt-1">'' @ int_to_string (contributions c) @
     '' contribution'' @ (if contributions c \<noteq> 1 then ''s'' else []) @ ''</span>\<newline>'' @
     ''      </a>\<newline>'' @
     ''    ''\<close>

definition unavailable_html :: string where
  \<open>unavailable_html =
     ''\<newline>'' @
     ''      <div class="col-span-full text-center py-8">\<newline>'' @
     ''        <p class="text-tz-muted text-sm mb-3">Could not load contributors from GitHub. They may be rate-limited.</p>\<newline>'' @
     ''        <a href="'' @ ''https://github.com/'' @ GITHUB_REPO @ ''/graphs/contributors'' @
     ''" target="_blank" rel="noopener noreferrer"\<newline>'' @
     ''           class="inline-flex items-center gap-2 text-sm font-semibold text-tz-forest hover:text-tz-forest/80 transition-colors">\<newline>'' @
     ''          <i data-lucide="external-link" class="w-4 h-4"></i> View contributors on GitHub\<newline>'' @
     ''        </a>\<newline>'' @
     ''      </div>\<newline>'' @
     ''    ''\<close>

text \<open>The \<open>catch\<close> block of \<open>loadContributors\<close>.\<close>

definition contributors_failed :: \<open>page \<Rightarrow> js_error \<Rightarrow> page_event list\<close> where
  \<open>contributors_failed page err =
     [IO (ConsoleWarn ''[about] Failed to load contributors:'' (message err)),
      SetInnerHTML ''contributors-grid'' unavailable_html] @
     (if lucide_defined page then [CreateIcons] else [])\<close>

text \<open>
  \<^verbatim>\<open>async function loadContributors()\<close>. Here \<open>res.json()\<close> is awaited inside
  the \<open>try\<close> block, so an error of the body reaches the \<open>catch\<close> block.
\<close>

definition loadContributors ::
  \<open>(string \<Rightarrow> contributor list fetch_outcome) \<Rightarrow> page \<Rightarrow> page_event list\<close> where
  \<open>loadContributors fetch page =
     (if \<not> has_element page ''contributors-grid'' then []
      else
        IO (Fetch contributors_url) #
        (case fetch contributors_url of
           Rejected err \<Rightarrow> contributors_failed page err
         | Resolved res \<Rightarrow>
             if \<not> ok res
             then contributors_failed page (Error (''GitHub API: '' @ decimal (status res)))
             else
               case json res of
                 Inl err \<Rightarrow> contributors_failed page err
               | Inr contributors \<Rightarrow>
                   if length contributors = 0
                   then [SetInnerHTML ''contributors-grid'' empty_html]
                   else
                     [SetInnerHTML ''contributors-grid'' (concat (map contributor_card contributors))] @
                     (if AOS_defined page then [AOSRefresh] else [])))\<close>

text \<open>The failures of the contributor fetch: of the network, or of reading the body.\<close>

definition fetch_failed :: \<open>'v fetch_outcome \<Rightarrow> bool\<close> where
  \<open>fetch_failed result =
     (case result of
        Rejected err \<Rightarrow> True
      | Resolved res \<Rightarrow> \<not> ok res \<or> (case json res of Inl err \<Rightarrow> True | Inr v \<Rightarrow> False))\<close>

section \<open>Example data\<close>

text \<open>The region of the specification's example, and one whose latitude is \<open>10\<^sup>2\<^sup>1\<close>.\<close>

definition kilimanjaro :: region where
  \<open>kilimanjaro =
     \<lparr>slug = ''kilimanjaro'', name = ''Kilimanjaro'',
      description = ''The roof of Africa.'', image_ref = None,
      latitude = ''-3.0674'', longitude = ''37.3556'', attraction_count = 5\<rparr>\<close>

definition zanzibar :: region where
  \<open>zanzibar =
     \<lparr>slug = ''zanzibar'', name = ''Zanzibar'',
      description = ''Spice islands.'', image_ref = Some ''images/zanzibar.jpg'',
      latitude = ''-6.1659'', longitude = ''39.2026'', attraction_count = 1\<rparr>\<close>

definition far_away :: region where
  \<open>far_away = kilimanjaro\<lparr>latitude := ''1e21''\<rparr>\<close>

definition attraction_in :: \<open>string \<Rightarrow> string \<Rightarrow> attraction\<close> where
  \<open>attraction_in key region =
     \<lparr>attraction_slug = key, attraction_name = key, region_name = region,
      featured_image = None, difficulty_level = ''moderate'', is_featured = False\<rparr>\<close>

definition five_attractions :: \<open>attraction list\<close> where
  \<open>five_attractions =
     [attraction_in ''uhuru-peak'' ''Kilimanjaro'', attraction_in ''stone-town'' ''Zanzibar'',
      attraction_in ''machame'' ''Kilimanjaro'', attraction_in ''foothills'' ''kilimanjaro'',
      attraction_in ''marangu'' ''Kilimanjaro'', attraction_in ''shira'' ''Kilimanjaro'']\<close>

text \<open>A page with the regions container, and the same page with no element at all.\<close>

definition regions_page :: page where
  \<open>regions_page =
     \<lparr>has_element = (\<lambda>element. element = ''regions-container''),
      has_element_after_render = (\<lambda>element. True),
      lucide_defined = True, AOS_defined = True, highlight = Some ''zanzibar''\<rparr>\<close>

definition about_page :: page where
  \<open>about_page = regions_page\<lparr>has_element := (\<lambda>element. element = ''contributors-grid'')\<rparr>\<close>

definition empty_page :: page where
  \<open>empty_page = regions_page\<lparr>has_element := (\<lambda>element. False)\<rparr>\<close>

text \<open>
  Networks: one that is down, one that answers every request with status 500, one
  that answers 200 with a body that is not JSON, and one that serves two regions and
  the attractions.
\<close>

definition unreachable :: \<open>string \<Rightarrow> 'v fetch_outcome\<close> where
  \<open>unreachable url = Rejected (TypeError ''Failed to fetch'')\<close>

definition server_error :: \<open>string \<Rightarrow> 'v fetch_outcome\<close> where
  \<open>server_error url = Resolved \<lparr>status = 500, json = Inl (SyntaxError ''Unexpected end of JSON input'')\<rparr>\<close>

definition not_json :: \<open>string \<Rightarrow> 'v fetch_outcome\<close> where
  \<open>not_json url = Resolved \<lparr>status = 200, json = Inl (SyntaxError ''Unexpected token < in JSON'')\<rparr>\<close>

definition serving :: \<open>'v \<Rightarrow> string \<Rightarrow> 'v fetch_outcome\<close> where
  \<open>serving body url = Resolved \<lparr>status = 200, json = Inr body\<rparr>\<close>

definition no_mock_data :: \<open>unit mock_data\<close> where
  \<open>no_mock_data =
     \<lparr>mock_regions = [], mock_attractions = [], mock_attractionDetails = (\<lambda>key. None)\<rparr>\<close>

definition offline_env :: \<open>unit env\<close> where
  \<open>offline_env =
     \<lparr>USE_MOCK = False, MOCK_DATA = no_mock_data, fetch_regions = unreachable,
      fetch_attractions = unreachable, fetch_attraction = unreachable\<rparr>\<close>

definition missing :: \<open>unit \<Rightarrow> js_error + 'v\<close> where
  \<open>missing _ = Inl (Error ''no substitute'')\<close>

definition octocat :: contributor where
  \<open>octocat =
     \<lparr>login = ''octocat'', avatar_url = ''https://avatars.githubusercontent.com/u/583231?v=4'',
      html_url = ''https://github.com/octocat'', contributions = 1\<rparr>\<close>

section \<open>Properties of the preview selection\<close>

text \<open>
  C4. For every attractions list and every region name, \<open>getAttractionsByRegion\<close>
  returns at most 3 items, each with a \<open>region_name\<close> equal (character for character)
  to the given name, and the items are a subsequence of the source list: they keep
  their relative order.
\<close>

theorem getAttractionsByRegion_preview:
  \<open>length (getAttractionsByRegion attractions regionName) \<le> 3 \<and>
   (\<forall>a \<in> set (getAttractionsByRegion attractions regionName). region_name a = regionName) \<and>
   subseq (getAttractionsByRegion attractions regionName) attractions\<close>
proof (intro conjI)
  show \<open>length (getAttractionsByRegion attractions regionName) \<le> 3\<close>
    by (simp add: getAttractionsByRegion_def)
next
  show \<open>\<forall>a \<in> set (getAttractionsByRegion attractions regionName). region_name a = regionName\<close>
  proof
    fix a
    assume \<open>a \<in> set (getAttractionsByRegion attractions regionName)\<close>
    then have \<open>a \<in> set (filter (\<lambda>a. region_name a = regionName) attractions)\<close>
      unfolding getAttractionsByRegion_def by (rule in_set_takeD)
    then show \<open>region_name a = regionName\<close> by simp
  qed
next
  have \<open>subseq (take 3 (filter (\<lambda>a. region_name a = regionName) attractions))
          (filter (\<lambda>a. region_name a = regionName) attractions)\<close>
    by (metis append_take_drop_id list_emb_prefix subseq_order.order_refl)
  then show \<open>subseq (getAttractionsByRegion attractions regionName) attractions\<close>
    unfolding getAttractionsByRegion_def
    by (rule subseq_order.order_trans) simp
qed

theorem getAttractionsByRegion_preview_witness:
  \<open>getAttractionsByRegion five_attractions ''Kilimanjaro'' =
     [attraction_in ''uhuru-peak'' ''Kilimanjaro'', attraction_in ''machame'' ''Kilimanjaro'',
      attraction_in ''marangu'' ''Kilimanjaro''] \<and>
   length (getAttractionsByRegion five_attractions ''Kilimanjaro'') \<le> 3 \<and>
   attraction_in ''machame'' ''Kilimanjaro'' \<in>
     set (getAttractionsByRegion five_attractions ''Kilimanjaro'') \<and>
   region_name (attraction_in ''machame'' ''Kilimanjaro'') = ''Kilimanjaro'' \<and>
   attraction_in ''foothills'' ''kilimanjaro'' \<notin>
     set (getAttractionsByRegion five_attractions ''Kilimanjaro'') \<and>
   subseq (getAttractionsByRegion five_attractions ''Kilimanjaro'') five_attractions\<close>
  using getAttractionsByRegion_preview [of five_attractions \<open>''Kilimanjaro''\<close>]
  by (simp add: getAttractionsByRegion_def five_attractions_def attraction_in_def)

section \<open>Properties of the adapter\<close>

lemma apiFetch_success:
  assumes \<open>fetch (API_BASE @ path) = Resolved res\<close> and \<open>ok res\<close>
  shows \<open>apiFetch False fetch path mockFallback =
           \<lparr>on_call = [Fetch (API_BASE @ path)], on_settle = [], outcome = json res\<rparr>\<close>
  using assms by (simp add: apiFetch_def)

lemma apiFetch_network_failed:
  assumes \<open>network_failed (fetch (API_BASE @ path))\<close>
  shows \<open>\<exists>msg. apiFetch False fetch path mockFallback =
           \<lparr>on_call = [Fetch (API_BASE @ path)],
            on_settle = [ConsoleWarn (''[api] Falling back to mock data for '' @ path @ '':'') msg,
                         MockFallback],
            outcome = mockFallback ()\<rparr>\<close>
  using assms
  by (auto simp: apiFetch_def fall_back_def network_failed_def split: fetch_outcome.splits)

lemma apiFetch_forced_mock:
  \<open>apiFetch True fetch path mockFallback =
     \<lparr>on_call = [MockFallback], on_settle = [], outcome = mockFallback ()\<rparr>\<close>
  by (simp add: apiFetch_def)

text \<open>
  C1, at the input where it fails: a response with status 200 whose body is not
  JSON. With the force-mock flag unset, \<open>apiFetch\<close> issues the request, logs no
  warning, does not call the fallback producer, and its promise is rejected with
  the error of \<open>res.json()\<close>, whatever the path, the fallback producer and the
  error are.
\<close>

theorem apiFetch_body_error_not_recovered:
  \<open>apiFetch False (\<lambda>url. Resolved \<lparr>status = 200, json = Inl err\<rparr>) path mockFallback =
     \<lparr>on_call = [Fetch (API_BASE @ path)], on_settle = [], outcome = Inl err\<rparr>\<close>
  by (simp add: apiFetch_def ok_def)

text \<open>
  C3. For every path, when the fallback producer throws \<open>e\<close>: if the network attempt
  has failed (a rejected fetch or a status outside 200 to 299) the adapter logs its
  warning, calls the producer and its promise is rejected with \<open>e\<close>; and with the
  force-mock flag set its promise is rejected with \<open>e\<close> as well. In particular
  \<open>api.getAttraction\<close> with a slug that has no entry in the mock details is rejected
  with the "not found in mock data" error in both situations.
\<close>

theorem fallback_failure_propagates:
  \<open>(mockFallback () = Inl e \<and> network_failed (fetch (API_BASE @ path)) \<longrightarrow>
      outcome (apiFetch False fetch path mockFallback) = Inl e \<and>
      MockFallback \<in> set (on_settle (apiFetch False fetch path mockFallback))) \<and>
   (mockFallback () = Inl e \<longrightarrow> outcome (apiFetch True fetch path mockFallback) = Inl e) \<and>
   (mock_attractionDetails (MOCK_DATA env) key = None \<and>
    (USE_MOCK env \<or> network_failed (fetch_attraction env (API_BASE @ ''/attractions/'' @ key @ ''/''))) \<longrightarrow>
      outcome (api_getAttraction env key) =
        Inl (Error (''Attraction "'' @ key @ ''" not found in mock data'')))\<close>
proof (intro conjI impI)
  assume a: \<open>mockFallback () = Inl e \<and> network_failed (fetch (API_BASE @ path))\<close>
  then obtain msg where
    \<open>apiFetch False fetch path mockFallback =
       \<lparr>on_call = [Fetch (API_BASE @ path)],
        on_settle = [ConsoleWarn (''[api] Falling back to mock data for '' @ path @ '':'') msg,
                     MockFallback],
        outcome = mockFallback ()\<rparr>\<close>
    using apiFetch_network_failed by blast
  with a show \<open>outcome (apiFetch False fetch path mockFallback) = Inl e\<close>
    and \<open>MockFallback \<in> set (on_settle (apiFetch False fetch path mockFallback))\<close>
    by simp_all
next
  assume \<open>mockFallback () = Inl e\<close>
  then show \<open>outcome (apiFetch True fetch path mockFallback) = Inl e\<close>
    by (simp add: apiFetch_forced_mock)
next
  assume a: \<open>mock_attractionDetails (MOCK_DATA env) key = None \<and>
    (USE_MOCK env \<or> network_failed (fetch_attraction env (API_BASE @ ''/attractions/'' @ key @ ''/'')))\<close>
  then have fb: \<open>attraction_fallback env key () =
      Inl (Error (''Attraction "'' @ key @ ''" not found in mock data''))\<close>
    by (simp add: attraction_fallback_def)
  show \<open>outcome (api_getAttraction env key) =
      Inl (Error (''Attraction "'' @ key @ ''" not found in mock data''))\<close>
  proof (cases \<open>USE_MOCK env\<close>)
    case True
    then show ?thesis
      by (simp add: api_getAttraction_def apiFetch_forced_mock fb)
  next
    case False
    with a have \<open>network_failed (fetch_attraction env (API_BASE @ (''/attractions/'' @ key @ ''/'')))\<close>
      by simp
    then obtain msg where
      \<open>apiFetch False (fetch_attraction env) (''/attractions/'' @ key @ ''/'') (attraction_fallback env key) =
         \<lparr>on_call = [Fetch (API_BASE @ (''/attractions/'' @ key @ ''/''))],
          on_settle = [ConsoleWarn (''[api] Falling back to mock data for '' @ (''/attractions/'' @ key @ ''/'') @ '':'') msg,
                       MockFallback],
          outcome = attraction_fallback env key ()\<rparr>\<close>
      using apiFetch_network_failed by blast
    with False show ?thesis
      by (simp add: api_getAttraction_def fb)
  qed
qed

theorem fallback_failure_propagates_witness:
  \<open>(missing () = (Inl (Error ''no substitute'') :: js_error + unit) \<and>
    network_failed (server_error (API_BASE @ ''/regions/'') :: unit fetch_outcome)) \<and>
   outcome (apiFetch False server_error ''/regions/'' missing) = (Inl (Error ''no substitute'') :: js_error + unit) \<and>
   on_settle (apiFetch False server_error ''/regions/'' (missing :: unit \<Rightarrow> js_error + unit)) =
     [ConsoleWarn ''[api] Falling back to mock data for /regions/:'' ''API error: 500'', MockFallback] \<and>
   outcome (apiFetch True server_error ''/regions/'' missing) = (Inl (Error ''no substitute'') :: js_error + unit) \<and>
   (mock_attractionDetails (MOCK_DATA offline_env) ''atlantis'' = None \<and>
    network_failed (fetch_attraction offline_env (API_BASE @ ''/attractions/'' @ ''atlantis'' @ ''/''))) \<and>
   outcome (api_getAttraction offline_env ''atlantis'') =
     Inl (Error ''Attraction "atlantis" not found in mock data'')\<close>
  using fallback_failure_propagates [of \<open>missing :: unit \<Rightarrow> js_error + unit\<close> \<open>Error ''no substitute''\<close>
      server_error \<open>''/regions/''\<close> offline_env \<open>''atlantis''\<close>]
  by (simp add: missing_def server_error_def network_failed_def ok_def offline_env_def
      no_mock_data_def unreachable_def apiFetch_def fall_back_def decimal.simps digit_char_def)

section \<open>Pieces of a concatenation\<close>

lemma sublist_skip: \<open>sublist m ys \<Longrightarrow> sublist m (x @ ys)\<close>
  by (metis sublist_append)

lemma concat_slice_sublist: \<open>sublist (concat (take n (drop k xs))) (concat xs)\<close>
proof -
  have \<open>take k xs @ take n (drop k xs) @ drop n (drop k xs) = xs\<close>
    by (simp only: append_take_drop_id)
  then have \<open>concat xs =
      concat (take k xs) @ concat (take n (drop k xs)) @ concat (drop n (drop k xs))\<close>
    by (metis concat_append)
  then show ?thesis
    by (simp only: sublist_appendI)
qed

lemma member_sublist_concat:
  assumes \<open>x \<in> set xs\<close>
  shows \<open>sublist x (concat xs)\<close>
proof -
  from assms obtain ys zs where \<open>xs = ys @ x # zs\<close>
    by (auto dest: split_list)
  then have \<open>concat xs = concat ys @ x @ concat zs\<close>
    by simp
  then show ?thesis
    by (simp only: sublist_appendI)
qed

lemma section_slice:
  \<open>sublist (concat (take n (drop k (region_section_parts region attractions index))))
     (buildRegionSection region attractions index)\<close>
  by (simp add: buildRegionSection_def concat_slice_sublist)

lemma section_anchor_slice:
  \<open>concat (take 3 (drop 8 (region_section_parts region attractions index))) =
     ''    <section id="region-'' @ slug region @ ''"\<newline>''\<close>
  by (simp add: region_section_parts_def)

lemma section_anchor_in_section:
  \<open>sublist (''    <section id="region-'' @ slug region @ ''"\<newline>'')
     (buildRegionSection region attractions index)\<close>
  using section_slice [of 3 8 region attractions index]
  by (simp only: section_anchor_slice)

section \<open>Evaluation of the number model on numerals\<close>

lemmas decimal_numeral = decimal.simps [of \<open>numeral k\<close>] for k

lemma decimal_0_1: \<open>decimal 0 = ''0''\<close> \<open>decimal 1 = ''1''\<close>
  by (simp_all add: decimal.simps digit_char_def)

lemmas bit_length_numeral = bit_length.simps [of \<open>numeral k\<close>] for k

lemma bit_length_0_1: \<open>bit_length 0 = 0\<close> \<open>bit_length 1 = 1\<close>
  by (simp_all add: bit_length.simps)

lemma decimal_length_step:
  \<open>decimal_length n =
    (if n < 10 then 1 else if n < 100 then 2 else decimal_length (n div 100) + 2)\<close>
proof (cases \<open>n < 10\<close>)
  case True
  then show ?thesis
    by (simp add: decimal_length.simps [of n])
next
  case False
  show ?thesis
  proof (cases \<open>n < 100\<close>)
    case True
    with False have \<open>n div 10 < 10\<close> by arith
    with False True show ?thesis
      by (simp add: decimal_length.simps [of n] decimal_length.simps [of \<open>n div 10\<close>])
  next
    case ge: False
    then have \<open>\<not> n div 10 < 10\<close> by arith
    moreover have \<open>n div 10 div 10 = n div 100\<close>
      by (simp add: div_mult2_eq [symmetric])
    ultimately show ?thesis
      using False ge
      by (simp add: decimal_length.simps [of n] decimal_length.simps [of \<open>n div 10\<close>])
  qed
qed

lemmas decimal_length_numeral = decimal_length_step [of \<open>numeral k\<close>] for k

lemma decimal_length_0_1: \<open>decimal_length 0 = 1\<close> \<open>decimal_length 1 = 1\<close>
  by (simp_all add: decimal_length.simps)

lemmas shortest_length_numeral = shortest_length.simps [of x \<open>numeral k\<close>] for x k

lemma shortest_length_1:
  \<open>shortest_length x 1 = (if candidates x 1 \<noteq> [] then 1 else shortest_length x 2)\<close>
  by (subst shortest_length.simps) (simp add: numeral_2_eq_2)

lemma replicate_numeral:
  \<open>replicate (numeral k) x = x # replicate (pred_numeral k) x\<close>
  \<open>replicate 1 x = [x]\<close>
  by (simp_all add: numeral_eq_Suc)

lemmas number_eval =
  parseFloat_def signed_literal_def unsigned_literal_def fraction_part_def decimal_literal_def
  to_number_def exponent_part_def signed_digits_def has_minus_def after_sign_def
  white_space_length_def white_space_def is_digit_def digits_value_def
  nearest_double_def round_at_def make_double_def mantissa_at_def round_half_even_def
  double_exponent_def floor_log2_def adjust_log2_def
  toFixed_def fixed_digits_def insert_point_def pad_zeros_def scaled_round_def
  toString_large_def shortest_form_def exponent_form_def closest_def nearer_def distance_def
  candidates_def candidates_at_def next_candidate_def denotes_def is_double_of_def
  integer_form_def integer_digits_def toString_nat_def integral_value_def double_of_nat_def
  toString_double_def int_to_string_def
  shortest_length_numeral shortest_length_1 decimal_length_numeral decimal_length_0_1
  bit_length_numeral bit_length_0_1 decimal_numeral decimal_0_1 digit_char_def
  replicate_numeral

lemma parseFloat_kilimanjaro:
  \<open>parseFloat ''-3.0674'' = Finite True 6907170748498130 (- 51)\<close>
  \<open>parseFloat ''37.3556'' = Finite False 5257333320006291 (- 47)\<close>
  by (simp_all add: number_eval del: One_nat_def add_2_eq_Suc add_2_eq_Suc' split del: if_split)

lemma toFixed_kilimanjaro:
  \<open>toFixed (Finite True 6907170748498130 (- 51)) 4 = ''-3.0674''\<close>
  \<open>toFixed (Finite False 5257333320006291 (- 47)) 4 = ''37.3556''\<close>
  by (simp_all add: number_eval del: One_nat_def add_2_eq_Suc add_2_eq_Suc' split del: if_split)

lemma parseFloat_1e21: \<open>parseFloat ''1e21'' = Finite False 7629394531250000 17\<close>
  by (simp add: number_eval del: One_nat_def add_2_eq_Suc add_2_eq_Suc' split del: if_split)

lemma toFixed_1e21: \<open>toFixed (Finite False 7629394531250000 17) 4 = ''1e+21''\<close>
  by (simp add: number_eval del: One_nat_def add_2_eq_Suc add_2_eq_Suc' split del: if_split)

lemma nat_one: \<open>nat 1 = 1\<close>
  by simp

lemma int_to_string_small:
  \<open>int_to_string 0 = ''0''\<close>
  \<open>int_to_string 1 = ''1''\<close>
  \<open>int_to_string 5 = ''5''\<close>
  \<open>int_to_string 120 = ''120''\<close>
  \<open>int_to_string (- 3) = ''-3''\<close>
  by (simp_all add: number_eval nat_one del: nat_1 One_nat_def add_2_eq_Suc add_2_eq_Suc'
      split del: if_split)

lemma int_to_string_1e21: \<open>int_to_string 1000000000000000000000 = ''1e+21''\<close>
  by (simp add: number_eval del: One_nat_def add_2_eq_Suc add_2_eq_Suc' split del: if_split)

section \<open>Properties of the page controllers\<close>

lemma inner_html_writes_append:
  \<open>inner_html_writes (xs @ ys) = inner_html_writes xs @ inner_html_writes ys\<close>
  by (induction xs rule: inner_html_writes.induct) simp_all

lemma inner_html_writes_IO: \<open>inner_html_writes (map IO events) = []\<close>
  by (induction events) simp_all

lemma inner_html_writes_scroll: \<open>inner_html_writes (scroll_to_highlight page) = []\<close>
  by (simp add: scroll_to_highlight_def split: option.splits)

lemma inner_html_writes_failed:
  \<open>inner_html_writes (init_failed err) =
     [(''regions-container'',
       ''\<newline>'' @
       ''      <p class="text-center text-red-500 py-16">\<newline>'' @
       ''        Failed to load regions. Please try refreshing the page.\<newline>'' @
       ''      </p>\<newline>'' @
       ''    '')]\<close>
  by (simp add: init_failed_def failure_html_def)

lemma regions_html_nth:
  \<open>regions_html regions attractions =
     concat (map (\<lambda>i. buildRegionSection (regions ! i)
                         (getAttractionsByRegion attractions (name (regions ! i))) i)
               [0 ..< length regions])\<close>
proof -
  have \<open>map (\<lambda>(index, region).
              buildRegionSection region (getAttractionsByRegion attractions (name region)) index)
          (enumerate 0 regions) =
        map (\<lambda>i. buildRegionSection (regions ! i)
                    (getAttractionsByRegion attractions (name (regions ! i))) i)
          [0 ..< length regions]\<close>
    by (rule nth_equalityI) (simp_all add: nth_enumerate_eq)
  then show ?thesis
    by (simp only: regions_html_def)
qed

lemma inner_html_writes_rendered:
  \<open>inner_html_writes (init_rendered page regions attractions) =
     [(''regions-container'',
       concat (map (\<lambda>i. buildRegionSection (regions ! i)
                           (getAttractionsByRegion attractions (name (regions ! i))) i)
                 [0 ..< length regions]))]\<close>
  by (simp add: init_rendered_def inner_html_writes_append inner_html_writes_scroll
      regions_html_nth)

lemma section_anchor_in_sections:
  assumes \<open>i < length regions\<close>
  shows \<open>sublist (''    <section id="region-'' @ slug (regions ! i) @ ''"\<newline>'')
           (concat (map (\<lambda>i. buildRegionSection (regions ! i)
                               (getAttractionsByRegion attractions (name (regions ! i))) i)
                     [0 ..< length regions]))\<close>
proof -
  let ?section = \<open>\<lambda>i. buildRegionSection (regions ! i)
      (getAttractionsByRegion attractions (name (regions ! i))) i\<close>
  from assms have \<open>?section i \<in> set (map ?section [0 ..< length regions])\<close>
    by simp
  then have \<open>sublist (?section i) (concat (map ?section [0 ..< length regions]))\<close>
    by (rule member_sublist_concat)
  with section_anchor_in_section [of \<open>regions ! i\<close>
      \<open>getAttractionsByRegion attractions (name (regions ! i))\<close> i]
  show ?thesis
    by (rule sublist_order.order_trans)
qed

lemma inner_html_writes_resumed:
  \<open>inner_html_writes (init_resumed page (Inl err) a first) =
     inner_html_writes (init_failed err)\<close>
  \<open>inner_html_writes (init_resumed page r (Inl err) first) =
     inner_html_writes (init_failed err)\<close>
  \<open>inner_html_writes (init_resumed page (Inr regions) (Inr attractions) first) =
     inner_html_writes (init_rendered page regions attractions)\<close>
  by (simp_all add: init_resumed_def inner_html_writes_failed split: sum.splits)

lemmas init_writes =
  init_with_def inner_html_writes_append inner_html_writes_IO inner_html_writes_resumed
  inner_html_writes_failed inner_html_writes_rendered

text \<open>
  C2. On a page that has the regions container, in whatever order the two promises
  settle and whatever the two adapter calls log: if the promise of either call is
  rejected (its fallback included), the controller assigns the container's
  \<open>innerHTML\<close> exactly once, with the page-level failure message "Failed to load
  regions. Please try refreshing the page." in its paragraph, so nothing fetched is
  written; if both resolve, it assigns it exactly once, with the sections of all
  regions in the order of the list, each built from the region, its preview and its
  index, and each holding the anchor of its region.
\<close>

theorem init_all_or_nothing:
  \<open>has_element page ''regions-container'' \<longrightarrow>
     ((\<exists>err. outcome rs = Inl err) \<or> (\<exists>err. outcome ats = Inl err) \<longrightarrow>
        inner_html_writes (init_with page order rs ats) =
          [(''regions-container'',
            ''\<newline>'' @
            ''      <p class="text-center text-red-500 py-16">\<newline>'' @
            ''        Failed to load regions. Please try refreshing the page.\<newline>'' @
            ''      </p>\<newline>'' @
            ''    '')]) \<and>
     (\<forall>regions attractions. outcome rs = Inr regions \<and> outcome ats = Inr attractions \<longrightarrow>
        inner_html_writes (init_with page order rs ats) =
          [(''regions-container'',
            concat (map (\<lambda>i. buildRegionSection (regions ! i)
                                (getAttractionsByRegion attractions (name (regions ! i))) i)
                      [0 ..< length regions]))] \<and>
        (\<forall>i < length regions.
           sublist (''    <section id="region-'' @ slug (regions ! i) @ ''"\<newline>'')
             (concat (map (\<lambda>i. buildRegionSection (regions ! i)
                                 (getAttractionsByRegion attractions (name (regions ! i))) i)
                       [0 ..< length regions]))))\<close>
proof (intro impI conjI allI)
  assume c: \<open>has_element page ''regions-container''\<close>
  assume \<open>(\<exists>err. outcome rs = Inl err) \<or> (\<exists>err. outcome ats = Inl err)\<close>
  then show \<open>inner_html_writes (init_with page order rs ats) =
      [(''regions-container'',
        ''\<newline>'' @
        ''      <p class="text-center text-red-500 py-16">\<newline>'' @
        ''        Failed to load regions. Please try refreshing the page.\<newline>'' @
        ''      </p>\<newline>'' @
        ''    '')]\<close>
  proof
    assume \<open>\<exists>err. outcome rs = Inl err\<close>
    with c show ?thesis
      by (cases order; cases \<open>outcome ats\<close>) (auto simp: init_writes)
  next
    assume \<open>\<exists>err. outcome ats = Inl err\<close>
    with c show ?thesis
      by (cases order; cases \<open>outcome rs\<close>) (auto simp: init_writes)
  qed
next
  fix regions attractions
  assume \<open>has_element page ''regions-container''\<close>
    and \<open>outcome rs = Inr regions \<and> outcome ats = Inr attractions\<close>
  then show \<open>inner_html_writes (init_with page order rs ats) =
      [(''regions-container'',
        concat (map (\<lambda>i. buildRegionSection (regions ! i)
                            (getAttractionsByRegion attractions (name (regions ! i))) i)
                  [0 ..< length regions]))]\<close>
    by (cases order) (simp_all add: init_writes)
next
  fix regions :: \<open>region list\<close> and attractions :: \<open>attraction list\<close> and i
  assume \<open>i < length regions\<close>
  then show \<open>sublist (''    <section id="region-'' @ slug (regions ! i) @ ''"\<newline>'')
      (concat (map (\<lambda>i. buildRegionSection (regions ! i)
                          (getAttractionsByRegion attractions (name (regions ! i))) i)
                [0 ..< length regions]))\<close>
    by (rule section_anchor_in_sections)
qed

theorem init_all_or_nothing_witness:
  \<open>has_element regions_page ''regions-container'' \<and>
   outcome (apiFetch False (serving [kilimanjaro, zanzibar]) ''/regions/'' missing) =
     Inr [kilimanjaro, zanzibar] \<and>
   outcome (apiFetch False server_error ''/attractions/'' missing) =
     (Inl (Error ''no substitute'') :: js_error + attraction list) \<and>
   inner_html_writes
     (init_with regions_page RegionsFirst
        (apiFetch False (serving [kilimanjaro, zanzibar]) ''/regions/'' missing)
        (apiFetch False server_error ''/attractions/'' missing)) =
     [(''regions-container'',
       ''\<newline>'' @
       ''      <p class="text-center text-red-500 py-16">\<newline>'' @
       ''        Failed to load regions. Please try refreshing the page.\<newline>'' @
       ''      </p>\<newline>'' @
       ''    '')] \<and>
   outcome (apiFetch False (serving five_attractions) ''/attractions/'' missing) =
     Inr five_attractions \<and>
   inner_html_writes
     (init_with regions_page SameTurnAttractionsFirst
        (apiFetch False (serving [kilimanjaro, zanzibar]) ''/regions/'' missing)
        (apiFetch False (serving five_attractions) ''/attractions/'' missing)) =
     [(''regions-container'',
       buildRegionSection kilimanjaro
         [attraction_in ''uhuru-peak'' ''Kilimanjaro'', attraction_in ''machame'' ''Kilimanjaro'',
          attraction_in ''marangu'' ''Kilimanjaro''] 0 @
       buildRegionSection zanzibar [attraction_in ''stone-town'' ''Zanzibar''] 1)] \<and>
   sublist (''    <section id="region-'' @ ''zanzibar'' @ ''"\<newline>'')
     (buildRegionSection kilimanjaro
         [attraction_in ''uhuru-peak'' ''Kilimanjaro'', attraction_in ''machame'' ''Kilimanjaro'',
          attraction_in ''marangu'' ''Kilimanjaro''] 0 @
       buildRegionSection zanzibar [attraction_in ''stone-town'' ''Zanzibar''] 1)\<close>
proof -
  have p: \<open>has_element regions_page ''regions-container''\<close>
    by (simp add: regions_page_def)
  have r: \<open>outcome (apiFetch False (serving [kilimanjaro, zanzibar]) ''/regions/'' missing) =
      Inr [kilimanjaro, zanzibar]\<close>
    by (simp add: apiFetch_def serving_def ok_def)
  have a: \<open>outcome (apiFetch False server_error ''/attractions/'' missing) =
      (Inl (Error ''no substitute'') :: js_error + attraction list)\<close>
    by (simp add: apiFetch_def server_error_def ok_def fall_back_def missing_def)
  have a': \<open>outcome (apiFetch False (serving five_attractions) ''/attractions/'' missing) =
      Inr five_attractions\<close>
    by (simp add: apiFetch_def serving_def ok_def)
  have n: \<open>[0 ..< length [kilimanjaro, zanzibar]] = [0, 1]\<close>
    by (simp add: upt_rec)
  have g: \<open>getAttractionsByRegion five_attractions (name kilimanjaro) =
      [attraction_in ''uhuru-peak'' ''Kilimanjaro'', attraction_in ''machame'' ''Kilimanjaro'',
       attraction_in ''marangu'' ''Kilimanjaro'']\<close>
    \<open>getAttractionsByRegion five_attractions (name zanzibar) =
      [attraction_in ''stone-town'' ''Zanzibar'']\<close>
    by (simp_all add: getAttractionsByRegion_def five_attractions_def attraction_in_def
        kilimanjaro_def zanzibar_def)
  have s: \<open>slug zanzibar = ''zanzibar''\<close>
    by (simp add: zanzibar_def)
  have f: \<open>inner_html_writes
     (init_with regions_page RegionsFirst
        (apiFetch False (serving [kilimanjaro, zanzibar]) ''/regions/'' missing)
        (apiFetch False server_error ''/attractions/'' missing)) =
     [(''regions-container'',
       ''\<newline>'' @
       ''      <p class="text-center text-red-500 py-16">\<newline>'' @
       ''        Failed to load regions. Please try refreshing the page.\<newline>'' @
       ''      </p>\<newline>'' @
       ''    '')]\<close>
    using p a
      init_all_or_nothing [of regions_page
        \<open>apiFetch False (serving [kilimanjaro, zanzibar]) ''/regions/'' missing\<close>
        \<open>apiFetch False server_error ''/attractions/'' missing\<close> RegionsFirst]
    by blast
  from p r a'
    init_all_or_nothing [of regions_page
      \<open>apiFetch False (serving [kilimanjaro, zanzibar]) ''/regions/'' missing\<close>
      \<open>apiFetch False (serving five_attractions) ''/attractions/'' missing\<close>
      SameTurnAttractionsFirst]
  have w: \<open>inner_html_writes
     (init_with regions_page SameTurnAttractionsFirst
        (apiFetch False (serving [kilimanjaro, zanzibar]) ''/regions/'' missing)
        (apiFetch False (serving five_attractions) ''/attractions/'' missing)) =
     [(''regions-container'',
       concat (map (\<lambda>i. buildRegionSection ([kilimanjaro, zanzibar] ! i)
                           (getAttractionsByRegion five_attractions
                              (name ([kilimanjaro, zanzibar] ! i))) i)
                 [0 ..< length [kilimanjaro, zanzibar]]))]\<close>
    and b: \<open>sublist (''    <section id="region-'' @ slug ([kilimanjaro, zanzibar] ! 1) @ ''"\<newline>'')
      (concat (map (\<lambda>i. buildRegionSection ([kilimanjaro, zanzibar] ! i)
                          (getAttractionsByRegion five_attractions
                             (name ([kilimanjaro, zanzibar] ! i))) i)
                [0 ..< length [kilimanjaro, zanzibar]]))\<close>
    by auto
  have e: \<open>concat (map (\<lambda>i. buildRegionSection ([kilimanjaro, zanzibar] ! i)
                           (getAttractionsByRegion five_attractions
                              (name ([kilimanjaro, zanzibar] ! i))) i)
                 [0 ..< length [kilimanjaro, zanzibar]]) =
      buildRegionSection kilimanjaro
         [attraction_in ''uhuru-peak'' ''Kilimanjaro'', attraction_in ''machame'' ''Kilimanjaro'',
          attraction_in ''marangu'' ''Kilimanjaro''] 0 @
       buildRegionSection zanzibar [attraction_in ''stone-town'' ''Zanzibar''] 1\<close>
    unfolding n by (simp add: g)
  from b have b': \<open>sublist (''    <section id="region-'' @ ''zanzibar'' @ ''"\<newline>'')
      (concat (map (\<lambda>i. buildRegionSection ([kilimanjaro, zanzibar] ! i)
                          (getAttractionsByRegion five_attractions
                             (name ([kilimanjaro, zanzibar] ! i))) i)
                [0 ..< length [kilimanjaro, zanzibar]]))\<close>
    by (simp add: s)
  show ?thesis
    using p r a a' f w b' unfolding e by (intro conjI)
qed

text \<open>
  C10. On a page without the regions container \<open>init\<close> has no effect at all, and on a
  page without the contributors grid \<open>loadContributors\<close> has none: no request is
  issued, nothing is logged and nothing is written.
\<close>

theorem no_container_no_effect:
  \<open>(\<not> has_element page ''regions-container'' \<longrightarrow> init env page order = []) \<and>
   (\<not> has_element page ''contributors-grid'' \<longrightarrow> loadContributors fetch page = [])\<close>
  by (simp add: init_def init_with_def loadContributors_def)

theorem no_container_no_effect_witness:
  \<open>\<not> has_element empty_page ''regions-container'' \<and>
   init offline_env empty_page RegionsFirst = [] \<and>
   \<not> has_element empty_page ''contributors-grid'' \<and>
   loadContributors (serving [octocat]) empty_page = [] \<and>
   init offline_env regions_page RegionsFirst \<noteq> [] \<and>
   loadContributors (serving [octocat]) about_page \<noteq> []\<close>
  using no_container_no_effect [of empty_page offline_env RegionsFirst \<open>serving [octocat]\<close>]
  by (simp add: empty_page_def regions_page_def about_page_def init_def init_with_def
      loadContributors_def api_getRegions_def apiFetch_def offline_env_def unreachable_def
      fall_back_def serving_def ok_def)

section \<open>Properties of the contributor loader\<close>

lemma inner_html_writes_contributors_failed:
  \<open>inner_html_writes (contributors_failed page err) = [(''contributors-grid'', unavailable_html)]\<close>
  by (simp add: contributors_failed_def)

lemma contributor_cards_start:
  assumes \<open>cs \<noteq> []\<close>
  shows \<open>take 9 (concat (map contributor_card cs)) = ''\<newline>      <a''\<close>
proof -
  from assms obtain c cs' where \<open>cs = c # cs'\<close>
    by (cases cs) auto
  then show ?thesis
    by (simp add: contributor_card_def)
qed

lemma contributor_card_in_grid:
  assumes \<open>c \<in> set cs\<close>
  shows \<open>sublist
           (''\<newline>'' @
            ''      <a href="'' @ html_url c @ ''" target="_blank" rel="noopener noreferrer"\<newline>'' @
            ''         class="contributor-card bg-white rounded-xl p-5 shadow-sm border border-gray-100\<newline>'' @
            ''                flex flex-col items-center text-center"\<newline>'' @
            ''         data-aos="fade-up">\<newline>'' @
            ''        <img src="'' @ avatar_url c @ ''&s=80" alt="'' @ login c @ ''" class="w-14 h-14 rounded-full mb-3 shadow-sm" loading="lazy" />\<newline>'' @
            ''        <span class="font-semibold text-tz-dark text-sm">'' @ login c @ ''</span>\<newline>'' @
            ''        <span class="text-xs text-tz-muted mt-1">'' @ int_to_string (contributions c) @
            '' contribution'' @ (if contributions c \<noteq> 1 then ''s'' else []) @ ''</span>\<newline>'' @
            ''      </a>\<newline>'' @
            ''    '')
           (concat (map contributor_card cs))\<close>
proof -
  from assms have \<open>contributor_card c \<in> set (map contributor_card cs)\<close>
    by simp
  then have \<open>sublist (contributor_card c) (concat (map contributor_card cs))\<close>
    by (rule member_sublist_concat)
  then show ?thesis
    by (simp add: contributor_card_def)
qed

text \<open>
  C5. On a page that has the contributors grid, the loader writes the grid exactly
  once, and what it writes tells the three outcomes apart. For a fetched list that is
  not empty it writes the cards of the contributors in the order of the list, and
  the card of each is the link to the contributor's page around the avatar image
  (the avatar URL with \<open>&s=80\<close>, the login as alternative text), the login and the
  number of contributions. For a fetched empty list it writes the empty-state
  message, which holds "Be the first". For any failure of the fetch (a rejected
  request, a status outside 200 to 299, an error of reading or parsing the body) it
  writes the static message with the link to the contributors graph on GitHub. The
  three markups are pairwise different.
\<close>

theorem contributors_three_outcomes:
  \<open>has_element page ''contributors-grid'' \<longrightarrow>
     (\<forall>res cs. fetch contributors_url = Resolved res \<and> ok res \<and> json res = Inr cs \<and> cs \<noteq> [] \<longrightarrow>
        inner_html_writes (loadContributors fetch page) =
          [(''contributors-grid'', concat (map contributor_card cs))] \<and>
        (\<forall>c \<in> set cs.
           sublist
             (''\<newline>'' @
              ''      <a href="'' @ html_url c @ ''" target="_blank" rel="noopener noreferrer"\<newline>'' @
              ''         class="contributor-card bg-white rounded-xl p-5 shadow-sm border border-gray-100\<newline>'' @
              ''                flex flex-col items-center text-center"\<newline>'' @
              ''         data-aos="fade-up">\<newline>'' @
              ''        <img src="'' @ avatar_url c @ ''&s=80" alt="'' @ login c @ ''" class="w-14 h-14 rounded-full mb-3 shadow-sm" loading="lazy" />\<newline>'' @
              ''        <span class="font-semibold text-tz-dark text-sm">'' @ login c @ ''</span>\<newline>'' @
              ''        <span class="text-xs text-tz-muted mt-1">'' @ int_to_string (contributions c) @
              '' contribution'' @ (if contributions c \<noteq> 1 then ''s'' else []) @ ''</span>\<newline>'' @
              ''      </a>\<newline>'' @
              ''    '')
             (concat (map contributor_card cs))) \<and>
        concat (map contributor_card cs) \<noteq> empty_html \<and>
        concat (map contributor_card cs) \<noteq> unavailable_html) \<and>
     (\<forall>res. fetch contributors_url = Resolved res \<and> ok res \<and> json res = Inr [] \<longrightarrow>
        inner_html_writes (loadContributors fetch page) =
          [(''contributors-grid'',
            ''<p class="col-span-full text-tz-muted text-center text-sm">No contributors found yet. Be the first!</p>'')]) \<and>
     (fetch_failed (fetch contributors_url) \<longrightarrow>
        inner_html_writes (loadContributors fetch page) = [(''contributors-grid'', unavailable_html)]) \<and>
     empty_html \<noteq> unavailable_html \<and>
     sublist ''Be the first'' empty_html \<and>
     sublist
       (''        <a href="https://github.com/cleven12/twenzetu-safari-web/graphs/contributors" target="_blank" rel="noopener noreferrer"\<newline>'' @
        ''           class="inline-flex items-center gap-2 text-sm font-semibold text-tz-forest hover:text-tz-forest/80 transition-colors">\<newline>'' @
        ''          <i data-lucide="external-link" class="w-4 h-4"></i> View contributors on GitHub\<newline>'' @
        ''        </a>\<newline>'')
       unavailable_html\<close>
proof (intro impI conjI allI ballI)
  fix res cs
  assume g: \<open>has_element page ''contributors-grid''\<close>
    and f: \<open>fetch contributors_url = Resolved res \<and> ok res \<and> json res = Inr cs \<and> cs \<noteq> []\<close>
  then show \<open>inner_html_writes (loadContributors fetch page) =
      [(''contributors-grid'', concat (map contributor_card cs))]\<close>
    by (simp add: loadContributors_def)
  from f have s: \<open>take 9 (concat (map contributor_card cs)) = ''\<newline>      <a''\<close>
    by (simp add: contributor_cards_start)
  show \<open>concat (map contributor_card cs) \<noteq> empty_html\<close>
  proof
    assume \<open>concat (map contributor_card cs) = empty_html\<close>
    with s show False by (simp add: empty_html_def)
  qed
  show \<open>concat (map contributor_card cs) \<noteq> unavailable_html\<close>
  proof
    assume \<open>concat (map contributor_card cs) = unavailable_html\<close>
    with s show False by (simp add: unavailable_html_def)
  qed
next
  fix cs :: \<open>contributor list\<close> and c
  assume \<open>c \<in> set cs\<close>
  then show \<open>sublist
      (''\<newline>'' @
       ''      <a href="'' @ html_url c @ ''" target="_blank" rel="noopener noreferrer"\<newline>'' @
       ''         class="contributor-card bg-white rounded-xl p-5 shadow-sm border border-gray-100\<newline>'' @
       ''                flex flex-col items-center text-center"\<newline>'' @
       ''         data-aos="fade-up">\<newline>'' @
       ''        <img src="'' @ avatar_url c @ ''&s=80" alt="'' @ login c @ ''" class="w-14 h-14 rounded-full mb-3 shadow-sm" loading="lazy" />\<newline>'' @
       ''        <span class="font-semibold text-tz-dark text-sm">'' @ login c @ ''</span>\<newline>'' @
       ''        <span class="text-xs text-tz-muted mt-1">'' @ int_to_string (contributions c) @
       '' contribution'' @ (if contributions c \<noteq> 1 then ''s'' else []) @ ''</span>\<newline>'' @
       ''      </a>\<newline>'' @
       ''    '')
      (concat (map contributor_card cs))\<close>
    by (rule contributor_card_in_grid)
next
  fix res
  assume \<open>has_element page ''contributors-grid''\<close>
    and \<open>fetch contributors_url = Resolved res \<and> ok res \<and> json res = Inr []\<close>
  then show \<open>inner_html_writes (loadContributors fetch page) =
      [(''contributors-grid'',
        ''<p class="col-span-full text-tz-muted text-center text-sm">No contributors found yet. Be the first!</p>'')]\<close>
    by (simp add: loadContributors_def empty_html_def)
next
  assume \<open>has_element page ''contributors-grid''\<close>
    and \<open>fetch_failed (fetch contributors_url)\<close>
  then show \<open>inner_html_writes (loadContributors fetch page) =
      [(''contributors-grid'', unavailable_html)]\<close>
    by (auto simp: loadContributors_def fetch_failed_def inner_html_writes_contributors_failed
        split: fetch_outcome.splits sum.splits)
next
  show \<open>empty_html \<noteq> unavailable_html\<close>
    by (simp add: empty_html_def unavailable_html_def)
next
  show \<open>sublist ''Be the first'' empty_html\<close>
    unfolding empty_html_def by (rule sublist_appendI)
next
  show \<open>sublist
       (''        <a href="https://github.com/cleven12/twenzetu-safari-web/graphs/contributors" target="_blank" rel="noopener noreferrer"\<newline>'' @
        ''           class="inline-flex items-center gap-2 text-sm font-semibold text-tz-forest hover:text-tz-forest/80 transition-colors">\<newline>'' @
        ''          <i data-lucide="external-link" class="w-4 h-4"></i> View contributors on GitHub\<newline>'' @
        ''        </a>\<newline>'')
       unavailable_html\<close>
    unfolding unavailable_html_def
    by (rule sublist_skip, rule sublist_skip, rule sublist_skip, rule prefix_imp_sublist)
      (simp add: GITHUB_REPO_def)
qed

theorem contributors_three_outcomes_witness:
  \<open>has_element about_page ''contributors-grid'' \<and>
   inner_html_writes (loadContributors (serving [octocat]) about_page) =
     [(''contributors-grid'', contributor_card octocat)] \<and>
   octocat \<in> set [octocat] \<and>
   sublist
     (''\<newline>'' @
      ''      <a href="'' @ html_url octocat @ ''" target="_blank" rel="noopener noreferrer"\<newline>'' @
      ''         class="contributor-card bg-white rounded-xl p-5 shadow-sm border border-gray-100\<newline>'' @
      ''                flex flex-col items-center text-center"\<newline>'' @
      ''         data-aos="fade-up">\<newline>'' @
      ''        <img src="'' @ avatar_url octocat @ ''&s=80" alt="'' @ login octocat @ ''" class="w-14 h-14 rounded-full mb-3 shadow-sm" loading="lazy" />\<newline>'' @
      ''        <span class="font-semibold text-tz-dark text-sm">'' @ login octocat @ ''</span>\<newline>'' @
      ''        <span class="text-xs text-tz-muted mt-1">'' @ int_to_string (contributions octocat) @
      '' contribution'' @ (if contributions octocat \<noteq> 1 then ''s'' else []) @ ''</span>\<newline>'' @
      ''      </a>\<newline>'' @
      ''    '')
     (contributor_card octocat) \<and>
   contributor_card octocat \<noteq> empty_html \<and>
   contributor_card octocat \<noteq> unavailable_html \<and>
   inner_html_writes (loadContributors (serving []) about_page) =
     [(''contributors-grid'',
       ''<p class="col-span-full text-tz-muted text-center text-sm">No contributors found yet. Be the first!</p>'')] \<and>
   fetch_failed (server_error contributors_url :: contributor list fetch_outcome) \<and>
   inner_html_writes (loadContributors server_error about_page) =
     [(''contributors-grid'', unavailable_html)] \<and>
   fetch_failed (unreachable contributors_url :: contributor list fetch_outcome) \<and>
   inner_html_writes (loadContributors unreachable about_page) =
     [(''contributors-grid'', unavailable_html)] \<and>
   fetch_failed (not_json contributors_url :: contributor list fetch_outcome) \<and>
   inner_html_writes (loadContributors not_json about_page) =
     [(''contributors-grid'', unavailable_html)]\<close>
proof -
  have g: \<open>has_element about_page ''contributors-grid''\<close>
    by (simp add: about_page_def regions_page_def)
  have s: \<open>serving [octocat] contributors_url = Resolved \<lparr>status = 200, json = Inr [octocat]\<rparr>\<close>
    \<open>serving ([] :: contributor list) contributors_url = Resolved \<lparr>status = 200, json = Inr []\<rparr>\<close>
    \<open>ok \<lparr>status = 200, json = Inr [octocat]\<rparr>\<close>
    \<open>ok \<lparr>status = 200, json = (Inr [] :: js_error + contributor list)\<rparr>\<close>
    by (simp_all add: serving_def ok_def)
  have f: \<open>fetch_failed (server_error contributors_url :: contributor list fetch_outcome)\<close>
    \<open>fetch_failed (unreachable contributors_url :: contributor list fetch_outcome)\<close>
    \<open>fetch_failed (not_json contributors_url :: contributor list fetch_outcome)\<close>
    by (simp_all add: fetch_failed_def server_error_def unreachable_def not_json_def ok_def)
  from g s f
    contributors_three_outcomes [of about_page \<open>serving [octocat]\<close>]
    contributors_three_outcomes [of about_page \<open>serving []\<close>]
    contributors_three_outcomes [of about_page server_error]
    contributors_three_outcomes [of about_page unreachable]
    contributors_three_outcomes [of about_page not_json]
  show ?thesis by simp
qed

section \<open>Properties of the region section\<close>

lemma count_badge_slice:
  \<open>concat (take 7 (drop 64 (region_section_parts region attractions index))) =
     count_badge (int_to_string (attraction_count region) @ '' Attraction'' @
                  (if attraction_count region \<noteq> 1 then ''s'' else []))\<close>
  by (simp add: region_section_parts_def count_badge_def)

lemma top_row_slice:
  \<open>concat (take 22 (drop 18 (region_section_parts region attractions index))) =
     top_row (if imageLeft index then ''lg:flex-row'' else ''lg:flex-row-reverse'') region\<close>
  by (simp add: region_section_parts_def top_row_def)

lemma hero_image_slice:
  \<open>concat (take 6 (drop 26 (region_section_parts region attractions index))) =
     hero_image (region_imgSrc region) region\<close>
  by (simp add: region_section_parts_def hero_image_def)

lemma coordinates_slice:
  \<open>concat (take 7 (drop 78 (region_section_parts region attractions index))) =
     coordinate_badge (lat region @ '', '' @ lng region)\<close>
  by (simp add: region_section_parts_def coordinate_badge_def)

lemma count_badge_in_section:
  \<open>sublist
     (count_badge (int_to_string (attraction_count region) @ '' Attraction'' @
                   (if attraction_count region \<noteq> 1 then ''s'' else [])))
     (buildRegionSection region attractions index)\<close>
  using section_slice [of 7 64 region attractions index]
  by (simp only: count_badge_slice)

lemma top_row_in_section:
  \<open>sublist (top_row (if imageLeft index then ''lg:flex-row'' else ''lg:flex-row-reverse'') region)
     (buildRegionSection region attractions index)\<close>
  using section_slice [of 22 18 region attractions index]
  by (simp only: top_row_slice)

lemma hero_image_in_section:
  \<open>sublist (hero_image (region_imgSrc region) region) (buildRegionSection region attractions index)\<close>
  using section_slice [of 6 26 region attractions index]
  by (simp only: hero_image_slice)

lemma coordinates_in_section:
  \<open>sublist (coordinate_badge (lat region @ '', '' @ lng region))
     (buildRegionSection region attractions index)\<close>
  using section_slice [of 7 78 region attractions index]
  by (simp only: coordinates_slice)

lemma card_image_in_card:
  \<open>sublist (card_image (attraction_imgSrc attraction) attraction) (buildAttractionCard attraction)\<close>
  unfolding buildAttractionCard_def card_image_def
  by (rule sublist_skip, rule sublist_skip, rule sublist_skip, rule sublist_skip,
      rule sublist_skip, rule prefix_imp_sublist) simp

text \<open>
  C7. In the section of every region the attraction-count badge, between the map-pin
  icon and the end of its span, reads "1 Attraction" when the count is 1, and the
  count, as the template literal prints the number, followed by the plural label
  " Attractions" for any other integer, 0 included.
\<close>

theorem attraction_count_badge:
  \<open>(attraction_count region = 1 \<longrightarrow>
      sublist (count_badge ''1 Attraction'') (buildRegionSection region attractions index)) \<and>
   (attraction_count region \<noteq> 1 \<longrightarrow>
      sublist (count_badge (int_to_string (attraction_count region) @ '' Attractions''))
        (buildRegionSection region attractions index))\<close>
  using count_badge_in_section [of region attractions index]
  by (auto simp: int_to_string_small)

theorem attraction_count_badge_witness:
  \<open>attraction_count zanzibar = 1 \<and>
   sublist (count_badge ''1 Attraction'') (buildRegionSection zanzibar [] 1) \<and>
   attraction_count kilimanjaro \<noteq> 1 \<and>
   sublist (count_badge ''5 Attractions'') (buildRegionSection kilimanjaro five_attractions 0) \<and>
   attraction_count (kilimanjaro\<lparr>attraction_count := 0\<rparr>) \<noteq> 1 \<and>
   sublist (count_badge ''0 Attractions'')
     (buildRegionSection (kilimanjaro\<lparr>attraction_count := 0\<rparr>) [] 2) \<and>
   attraction_count (kilimanjaro\<lparr>attraction_count := 1000000000000000000000\<rparr>) \<noteq> 1 \<and>
   sublist (count_badge ''1e+21 Attractions'')
     (buildRegionSection (kilimanjaro\<lparr>attraction_count := 1000000000000000000000\<rparr>) [] 2)\<close>
  using attraction_count_badge [of zanzibar \<open>[]\<close> 1]
    attraction_count_badge [of kilimanjaro five_attractions 0]
    attraction_count_badge [of \<open>kilimanjaro\<lparr>attraction_count := 0\<rparr>\<close> \<open>[]\<close> 2]
    attraction_count_badge [of \<open>kilimanjaro\<lparr>attraction_count := 1000000000000000000000\<rparr>\<close> \<open>[]\<close> 2]
  by (simp add: zanzibar_def kilimanjaro_def int_to_string_small int_to_string_1e21)

text \<open>
  C8. The top row of every section holds the hero image block and then the
  description panel, and its direction class depends on the parity of the index
  alone: \<open>lg:flex-row\<close> for an even index, which lays the two out in this order
  (image first), and \<open>lg:flex-row-reverse\<close> for an odd index, which lays them out in
  the reverse order (description first).
\<close>

theorem layout_alternates:
  \<open>(even index \<longrightarrow>
      sublist (top_row ''lg:flex-row'' region) (buildRegionSection region attractions index)) \<and>
   (odd index \<longrightarrow>
      sublist (top_row ''lg:flex-row-reverse'' region) (buildRegionSection region attractions index))\<close>
  using top_row_in_section [of index region attractions]
  by (auto simp: imageLeft_def even_iff_mod_2_eq_zero)

theorem layout_alternates_witness:
  \<open>even (0 :: nat) \<and>
   sublist (top_row ''lg:flex-row'' kilimanjaro) (buildRegionSection kilimanjaro five_attractions 0) \<and>
   odd (1 :: nat) \<and>
   sublist (top_row ''lg:flex-row-reverse'' zanzibar) (buildRegionSection zanzibar [] 1) \<and>
   even (2 :: nat) \<and>
   sublist (top_row ''lg:flex-row'' zanzibar) (buildRegionSection zanzibar [] 2)\<close>
  using layout_alternates [of 0 kilimanjaro five_attractions]
    layout_alternates [of 1 zanzibar \<open>[]\<close>]
    layout_alternates [of 2 zanzibar \<open>[]\<close>]
  by simp

text \<open>
  C9. For a region whose image is absent or empty the hero image of its section has
  the source \<open>images/photo-1547036967-23d11aacaee0.jpg\<close>, and so has the image of the
  card of an attraction whose featured image is absent or empty; for a region with
  an image the hero image has that image as its source, unchanged.
\<close>

theorem hero_image_placeholder:
  \<open>(image_ref region = None \<or> image_ref region = Some [] \<longrightarrow>
      sublist (hero_image ''images/photo-1547036967-23d11aacaee0.jpg'' region)
        (buildRegionSection region attractions index)) \<and>
   (featured_image attraction = None \<or> featured_image attraction = Some [] \<longrightarrow>
      sublist (card_image ''images/photo-1547036967-23d11aacaee0.jpg'' attraction)
        (buildAttractionCard attraction)) \<and>
   (\<forall>src. image_ref region = Some src \<and> src \<noteq> [] \<longrightarrow>
      sublist (hero_image src region) (buildRegionSection region attractions index))\<close>
proof (intro conjI impI allI)
  assume \<open>image_ref region = None \<or> image_ref region = Some []\<close>
  then have \<open>region_imgSrc region = ''images/photo-1547036967-23d11aacaee0.jpg''\<close>
    by (auto simp: region_imgSrc_def or_else_def buildRegionSection_fallbackImg_def)
  with hero_image_in_section [of region attractions index]
  show \<open>sublist (hero_image ''images/photo-1547036967-23d11aacaee0.jpg'' region)
      (buildRegionSection region attractions index)\<close>
    by simp
next
  assume \<open>featured_image attraction = None \<or> featured_image attraction = Some []\<close>
  then have \<open>attraction_imgSrc attraction = ''images/photo-1547036967-23d11aacaee0.jpg''\<close>
    by (auto simp: attraction_imgSrc_def or_else_def buildAttractionCard_fallbackImg_def)
  with card_image_in_card [of attraction]
  show \<open>sublist (card_image ''images/photo-1547036967-23d11aacaee0.jpg'' attraction)
      (buildAttractionCard attraction)\<close>
    by simp
next
  fix src
  assume \<open>image_ref region = Some src \<and> src \<noteq> []\<close>
  then have \<open>region_imgSrc region = src\<close>
    by (simp add: region_imgSrc_def or_else_def)
  with hero_image_in_section [of region attractions index]
  show \<open>sublist (hero_image src region) (buildRegionSection region attractions index)\<close>
    by simp
qed

theorem hero_image_placeholder_witness:
  \<open>image_ref kilimanjaro = None \<and>
   sublist (hero_image ''images/photo-1547036967-23d11aacaee0.jpg'' kilimanjaro)
     (buildRegionSection kilimanjaro five_attractions 0) \<and>
   image_ref (zanzibar\<lparr>image_ref := Some []\<rparr>) = Some [] \<and>
   sublist (hero_image ''images/photo-1547036967-23d11aacaee0.jpg'' (zanzibar\<lparr>image_ref := Some []\<rparr>))
     (buildRegionSection (zanzibar\<lparr>image_ref := Some []\<rparr>) [] 1) \<and>
   featured_image (attraction_in ''machame'' ''Kilimanjaro'') = None \<and>
   sublist (card_image ''images/photo-1547036967-23d11aacaee0.jpg'' (attraction_in ''machame'' ''Kilimanjaro''))
     (buildAttractionCard (attraction_in ''machame'' ''Kilimanjaro'')) \<and>
   image_ref zanzibar = Some ''images/zanzibar.jpg'' \<and>
   sublist (hero_image ''images/zanzibar.jpg'' zanzibar) (buildRegionSection zanzibar [] 1)\<close>
  using hero_image_placeholder [of kilimanjaro five_attractions 0 \<open>attraction_in ''machame'' ''Kilimanjaro''\<close>]
    hero_image_placeholder [of \<open>zanzibar\<lparr>image_ref := Some []\<rparr>\<close> \<open>[]\<close> 1 \<open>attraction_in ''machame'' ''Kilimanjaro''\<close>]
    hero_image_placeholder [of zanzibar \<open>[]\<close> 1 \<open>attraction_in ''machame'' ''Kilimanjaro''\<close>]
  by (simp add: kilimanjaro_def zanzibar_def attraction_in_def)

section \<open>Properties of the coordinate badge\<close>

subsection \<open>The fixed-point branch of \<open>toFixed\<close>\<close>

lemma is_digit_digit_char: \<open>d < 10 \<Longrightarrow> is_digit (digit_char d)\<close>
proof -
  assume \<open>d < 10\<close>
  then have \<open>d \<in> {0, 1, 2, 3, 4, 5, 6, 7, 8, 9}\<close>
    by auto
  then show ?thesis
    by (auto simp: digit_char_def is_digit_def)
qed

lemma decimal_digits: \<open>list_all is_digit (decimal n) \<and> decimal n \<noteq> []\<close>
proof (induction n rule: decimal.induct)
  case (1 n)
  show ?case
  proof (cases \<open>n < 10\<close>)
    case True
    then show ?thesis
      by (simp add: decimal.simps [of n] is_digit_digit_char)
  next
    case False
    with 1 have \<open>list_all is_digit (decimal (n div 10))\<close>
      by simp
    with False show ?thesis
      by (simp add: decimal.simps [of n] is_digit_digit_char)
  qed
qed

lemma is_digit_zero: \<open>is_digit CHR ''0''\<close>
  by (simp add: is_digit_def)

lemma not_digit_point: \<open>\<not> is_digit CHR ''.''\<close>
  by (simp add: is_digit_def)

lemma not_digit_minus: \<open>\<not> is_digit CHR ''-''\<close>
  by (simp add: is_digit_def)

lemma pad_zeros_digits:
  assumes \<open>list_all is_digit m\<close>
  shows \<open>list_all is_digit (pad_zeros f m) \<and> f < length (pad_zeros f m)\<close>
  using assms by (auto simp: pad_zeros_def list_all_iff is_digit_zero)

lemma fixed_format_parts:
  assumes \<open>ip \<noteq> []\<close> and \<open>list_all is_digit ip\<close> and \<open>list_all is_digit fp\<close> and \<open>length fp = f\<close>
  shows \<open>fixed_format f (ip @ ''.'' @ fp)\<close> and \<open>fixed_format f (''-'' @ ip @ ''.'' @ fp)\<close>
proof -
  from assms obtain d ds where ip: \<open>ip = d # ds\<close> and d: \<open>is_digit d\<close>
    by (cases ip) auto
  from d have \<open>d \<noteq> CHR ''-''\<close>
    using not_digit_minus by auto
  then have a: \<open>after_minus (ip @ ''.'' @ fp) = ip @ ''.'' @ fp\<close>
    by (simp add: after_minus_def ip)
  have b: \<open>after_minus (''-'' @ ip @ ''.'' @ fp) = ip @ ''.'' @ fp\<close>
    by (simp add: after_minus_def)
  from assms have t: \<open>takeWhile is_digit (ip @ ''.'' @ fp) = ip\<close>
    by (simp add: takeWhile_append2 list_all_iff not_digit_point)
  from assms have r: \<open>dropWhile is_digit (ip @ ''.'' @ fp) = ''.'' @ fp\<close>
    by (simp add: dropWhile_append2 list_all_iff not_digit_point)
  from assms show \<open>fixed_format f (ip @ ''.'' @ fp)\<close>
    unfolding fixed_format_def a t r by simp
  from assms show \<open>fixed_format f (''-'' @ ip @ ''.'' @ fp)\<close>
    unfolding fixed_format_def b t r by simp
qed

lemma insert_point_format:
  assumes \<open>list_all is_digit m\<close> and \<open>f < length m\<close>
  shows \<open>fixed_format f (insert_point f m)\<close> and \<open>fixed_format f (CHR ''-'' # insert_point f m)\<close>
proof -
  have ip: \<open>take (length m - f) m \<noteq> []\<close>
    using assms by auto
  have d1: \<open>list_all is_digit (take (length m - f) m)\<close>
    using assms by (auto simp: list_all_iff dest: in_set_takeD)
  have d2: \<open>list_all is_digit (drop (length m - f) m)\<close>
    using assms by (auto simp: list_all_iff dest: in_set_dropD)
  have l: \<open>length (drop (length m - f) m) = f\<close>
    using assms by simp
  show \<open>fixed_format f (insert_point f m)\<close>
    unfolding insert_point_def using ip d1 d2 l by (rule fixed_format_parts)
  have \<open>fixed_format f (''-'' @ insert_point f m)\<close>
    unfolding insert_point_def using ip d1 d2 l by (rule fixed_format_parts)
  then show \<open>fixed_format f (CHR ''-'' # insert_point f m)\<close>
    by simp
qed

lemma toFixed_fixed_format:
  assumes \<open>below x (10 ^ 21)\<close> and \<open>f \<noteq> 0\<close>
  shows \<open>fixed_format f (toFixed x f)\<close>
proof -
  from assms obtain neg m e where x: \<open>x = Finite neg m e\<close>
    and small: \<open>\<not> (0 \<le> e \<and> 10 ^ 21 \<le> m * 2 ^ nat e)\<close>
    by (cases x) (auto simp: below_def split: if_splits)
  let ?m = \<open>pad_zeros f (decimal (scaled_round m e f))\<close>
  have \<open>list_all is_digit ?m \<and> f < length ?m\<close>
    using decimal_digits by (intro pad_zeros_digits) simp
  then have \<open>fixed_format f (insert_point f ?m)\<close>
    and \<open>fixed_format f (CHR ''-'' # insert_point f ?m)\<close>
    by (simp_all add: insert_point_format)
  with x small assms show ?thesis
    by (auto simp: toFixed_def fixed_digits_def)
qed

text \<open>
  C6, as amended. For every region, preview list and index: if the latitude and the
  longitude parse to finite numbers of magnitude below \<open>10\<^sup>2\<^sup>1\<close>, the coordinate badge
  of the section, between the navigation icon and the end of its span, reads the
  latitude, a comma and a space, and the longitude, each in fixed-point notation
  with exactly 4 digits after the decimal point.
\<close>

theorem coordinates_fixed4:
  \<open>below (parseFloat (latitude region)) (10 ^ 21) \<and>
   below (parseFloat (longitude region)) (10 ^ 21) \<longrightarrow>
     fixed_format 4 (lat region) \<and> fixed_format 4 (lng region) \<and>
     sublist (coordinate_badge (lat region @ '', '' @ lng region))
       (buildRegionSection region attractions index)\<close>
proof (intro impI conjI)
  assume b: \<open>below (parseFloat (latitude region)) (10 ^ 21) \<and>
    below (parseFloat (longitude region)) (10 ^ 21)\<close>
  from b have \<open>fixed_format 4 (toFixed (parseFloat (latitude region)) 4)\<close>
    by (intro toFixed_fixed_format) simp_all
  then show \<open>fixed_format 4 (lat region)\<close>
    by (simp only: lat_def)
  from b have \<open>fixed_format 4 (toFixed (parseFloat (longitude region)) 4)\<close>
    by (intro toFixed_fixed_format) simp_all
  then show \<open>fixed_format 4 (lng region)\<close>
    by (simp only: lng_def)
  show \<open>sublist (coordinate_badge (lat region @ '', '' @ lng region))
      (buildRegionSection region attractions index)\<close>
    by (rule coordinates_in_section)
qed

theorem coordinates_fixed4_witness:
  \<open>below (parseFloat (latitude kilimanjaro)) (10 ^ 21) \<and>
   below (parseFloat (longitude kilimanjaro)) (10 ^ 21) \<and>
   lat kilimanjaro = ''-3.0674'' \<and> lng kilimanjaro = ''37.3556'' \<and>
   fixed_format 4 (lat kilimanjaro) \<and> fixed_format 4 (lng kilimanjaro) \<and>
   sublist (coordinate_badge ''-3.0674, 37.3556'')
     (buildRegionSection kilimanjaro five_attractions 0)\<close>
proof -
  have p: \<open>parseFloat (latitude kilimanjaro) = Finite True 6907170748498130 (- 51)\<close>
    \<open>parseFloat (longitude kilimanjaro) = Finite False 5257333320006291 (- 47)\<close>
    by (simp_all add: kilimanjaro_def parseFloat_kilimanjaro)
  then have b: \<open>below (parseFloat (latitude kilimanjaro)) (10 ^ 21)\<close>
    \<open>below (parseFloat (longitude kilimanjaro)) (10 ^ 21)\<close>
    by (simp_all add: below_def)
  from p have l: \<open>lat kilimanjaro = ''-3.0674''\<close> \<open>lng kilimanjaro = ''37.3556''\<close>
    by (simp_all only: lat_def lng_def toFixed_kilimanjaro)
  from b l coordinates_fixed4 [of kilimanjaro five_attractions 0]
  show ?thesis by simp
qed

text \<open>
  C6 as stated fails at the finite latitude \<open>10\<^sup>2\<^sup>1\<close>: \<open>parseFloat\<close> reads "1e21" as
  that number, and \<open>toFixed(4)\<close> prints it as "1e+21", with no decimal point.
\<close>

theorem coordinates_counterexample:
  \<open>parseFloat (latitude far_away) = Finite False 7629394531250000 17 \<and>
   lat far_away = ''1e+21'' \<and>
   \<not> fixed_format 4 (lat far_away)\<close>
proof -
  have p: \<open>parseFloat (latitude far_away) = Finite False 7629394531250000 17\<close>
    by (simp add: far_away_def kilimanjaro_def parseFloat_1e21)
  then have l: \<open>lat far_away = ''1e+21''\<close>
    by (simp only: lat_def toFixed_1e21)
  have \<open>\<not> fixed_format 4 ''1e+21''\<close>
    by (simp add: fixed_format_def after_minus_def is_digit_def)
  with p l show ?thesis by simp
qed

end
